theory Spec2Isabelle
  imports Main
begin

section \<open>Shared types\<close>

text \<open>
  The two contracts \<^verbatim>\<open>EventTicketNFT.sol\<close> and \<^verbatim>\<open>TicketMarketplace.sol\<close> are embedded as
  functions on explicit contract states. An \<^verbatim>\<open>address\<close> and a \<^verbatim>\<open>uint256\<close> are natural
  numbers; \<^verbatim>\<open>address(0)\<close> is \<open>0\<close>. Solidity 0.8 reverts on arithmetic overflow, so every
  checked operation of the source is a branch that reverts when the result leaves the
  256-bit range. A revert is the value \<open>Inl msg\<close> with the source's revert string; the
  EVM rolls the whole transaction back, so a reverted call carries no state.
  Events are not part of the model.
\<close>

type_synonym address = nat
type_synonym uint256 = nat
type_synonym 'a result = "string + 'a"

definition MAX_UINT256 :: nat where
  "MAX_UINT256 = 2 ^ 256 - 1"

text \<open>The arithmetic panic of Solidity 0.8 (\<^verbatim>\<open>Panic(0x11)\<close>).\<close>

definition arithmetic_panic :: string where
  "arithmetic_panic = ''Panic: arithmetic overflow''"

section \<open>EventTicketNFT\<close>

datatype TicketStatus = PENDING | VERIFIED | LOCKED | UNLOCKED | DISPUTED

record TicketInfo =
  eventName :: string
  eventDate :: string
  venue :: string
  seatInfo :: string
  originalPrice :: uint256
  originalSeller :: address
  status :: TicketStatus
  listingTimestamp :: uint256
  proofImageHash :: string

text \<open>
  The storage of the token contract. \<open>owners\<close>, \<open>tokenApprovals\<close>, \<open>operatorApprovals\<close>
  and \<open>tokenURIs\<close> are the storage of the inherited OpenZeppelin ERC721 and
  ERC721URIStorage; \<open>nft_owner\<close> and \<open>nft_paused\<close> that of Ownable and Pausable. A token
  exists when its entry in \<open>owners\<close> is not the zero address. The inherited per-address
  token counts are left out: no function of the two contracts reads them.

  Of the inherited external functions, the transfers, the approvals, \<^verbatim>\<open>burn\<close> of
  ERC721Burnable and the two ownership functions of Ownable are modelled, by what
  OpenZeppelin 4.x does.
\<close>

record nft_state =
  tokenIdCounter :: uint256
  owners :: "uint256 \<Rightarrow> address"
  tokenApprovals :: "uint256 \<Rightarrow> address"
  operatorApprovals :: "address \<Rightarrow> address \<Rightarrow> bool"
  tokenURIs :: "uint256 \<Rightarrow> string"
  ticketInfo :: "uint256 \<Rightarrow> TicketInfo"
  isLocked :: "uint256 \<Rightarrow> bool"
  authorizedMarketplace :: "address \<Rightarrow> bool"
  nft_admins :: "address \<Rightarrow> bool"
  nft_owner :: address
  nft_paused :: bool

text \<open>Unwritten storage reads as zero: the default ticket record.\<close>

definition emptyTicketInfo :: TicketInfo where
  "emptyTicketInfo = \<lparr> eventName = [], eventDate = [], venue = [], seatInfo = [],
     originalPrice = 0, originalSeller = 0, status = PENDING, listingTimestamp = 0,
     proofImageHash = [] \<rparr>"

text \<open>The constructor: the deployer is the owner and an admin.\<close>

definition nft_constructor :: "address \<Rightarrow> nft_state" where
  "nft_constructor deployer = \<lparr> tokenIdCounter = 0, owners = (\<lambda>_. 0),
     tokenApprovals = (\<lambda>_. 0), operatorApprovals = (\<lambda>_ _. False), tokenURIs = (\<lambda>_. []),
     ticketInfo = (\<lambda>_. emptyTicketInfo), isLocked = (\<lambda>_. False),
     authorizedMarketplace = (\<lambda>_. False), nft_admins = (\<lambda>a. a = deployer),
     nft_owner = deployer, nft_paused = False \<rparr>"

subsection \<open>Inherited ERC721 helpers\<close>

definition exists_token :: "nft_state \<Rightarrow> uint256 \<Rightarrow> bool" where
  "exists_token n tokenId = (owners n tokenId \<noteq> 0)"

definition ownerOf :: "nft_state \<Rightarrow> uint256 \<Rightarrow> address result" where
  "ownerOf n tokenId =
     (if owners n tokenId = 0 then Inl ''ERC721: invalid token ID''
      else Inr (owners n tokenId))"

definition isApprovedOrOwner :: "nft_state \<Rightarrow> address \<Rightarrow> uint256 \<Rightarrow> bool result" where
  "isApprovedOrOwner n spender tokenId =
     (case ownerOf n tokenId of
        Inl e \<Rightarrow> Inl e
      | Inr ownr \<Rightarrow> Inr (spender = ownr \<or> operatorApprovals n ownr spender
                         \<or> tokenApprovals n tokenId = spender))"

text \<open>
  \<^verbatim>\<open>_transfer\<close> of ERC721, with the \<^verbatim>\<open>_beforeTokenTransfer\<close> hook that the contract
  overrides with \<^verbatim>\<open>whenNotPaused\<close>. It has no lock check.
\<close>

definition transfer_internal ::
  "nft_state \<Rightarrow> address \<Rightarrow> address \<Rightarrow> uint256 \<Rightarrow> nft_state result" where
  "transfer_internal n from to tokenId =
     (case ownerOf n tokenId of
        Inl e \<Rightarrow> Inl e
      | Inr ownr \<Rightarrow>
          if ownr \<noteq> from then Inl ''ERC721: transfer from incorrect owner''
          else if to = 0 then Inl ''ERC721: transfer to the zero address''
          else if nft_paused n then Inl ''Pausable: paused''
          else Inr (n\<lparr> tokenApprovals := (tokenApprovals n)(tokenId := 0),
                       owners := (owners n)(tokenId := to) \<rparr>))"

subsection \<open>Functions of the contract\<close>

text \<open>
  \<^verbatim>\<open>mintTicket\<close> is open to every caller, and it is not atomic. It reads the id from the
  counter, increments the counter (unchecked in the library, hence the explicit
  wrap-around) and enters \<^verbatim>\<open>_safeMint\<close>, whose \<^verbatim>\<open>_mint\<close> makes the recipient the owner:
  this is \<open>mintTicket_begin\<close>. Then \<^verbatim>\<open>_safeMint\<close> calls \<^verbatim>\<open>onERC721Received\<close> on a
  recipient that is a contract. The token contract has no reentrancy guard, so the
  recipient's code may call any function of the two contracts while the token already
  exists and its ticket record is still unwritten; the transaction layer below runs these
  calls. When the recipient returns, \<open>mintTicket_finish\<close> does the rest: the receiver
  check (\<open>acceptsERC721 to\<close> says whether the recipient answers with the expected value;
  any externally owned account passes), \<^verbatim>\<open>_setTokenURI\<close>, which requires that the token
  still exists, and the write of the ticket record with status \<open>PENDING\<close>.
\<close>

definition mintTicket_begin :: "nft_state \<Rightarrow> address \<Rightarrow> (nft_state \<times> uint256) result" where
  "mintTicket_begin n to =
     (let tokenId = tokenIdCounter n;
          n1 = n\<lparr> tokenIdCounter := (tokenIdCounter n + 1) mod 2 ^ 256 \<rparr> in
      if to = 0 then Inl ''ERC721: mint to the zero address''
      else if exists_token n1 tokenId then Inl ''ERC721: token already minted''
      else if nft_paused n1 then Inl ''Pausable: paused''
      else Inr (n1\<lparr> owners := (owners n1)(tokenId := to) \<rparr>, tokenId))"

definition mintTicket_finish ::
  "nft_state \<Rightarrow> (address \<Rightarrow> bool) \<Rightarrow> uint256 \<Rightarrow> address \<Rightarrow> uint256 \<Rightarrow> string \<Rightarrow> string \<Rightarrow> string
     \<Rightarrow> string \<Rightarrow> uint256 \<Rightarrow> string \<Rightarrow> string \<Rightarrow> nft_state result" where
  "mintTicket_finish n acceptsERC721 now to tokenId evName evDate ven seat origPrice proofHash
       metadataURI =
     (if \<not> acceptsERC721 to then Inl ''ERC721: transfer to non ERC721Receiver implementer''
      else if \<not> exists_token n tokenId then Inl ''ERC721URIStorage: URI set of nonexistent token''
      else Inr (n\<lparr> tokenURIs := (tokenURIs n)(tokenId := metadataURI),
                   ticketInfo := (ticketInfo n)(tokenId :=
                     \<lparr> eventName = evName, eventDate = evDate, venue = ven, seatInfo = seat,
                       originalPrice = origPrice, originalSeller = to, status = PENDING,
                       listingTimestamp = now, proofImageHash = proofHash \<rparr>) \<rparr>))"

definition nft_onlyAdmin :: "nft_state \<Rightarrow> address \<Rightarrow> bool" where
  "nft_onlyAdmin n sender = (nft_admins n sender \<or> sender = nft_owner n)"

definition set_status :: "nft_state \<Rightarrow> uint256 \<Rightarrow> TicketStatus \<Rightarrow> nft_state" where
  "set_status n tokenId st =
     n\<lparr> ticketInfo := (ticketInfo n)(tokenId := (ticketInfo n tokenId)\<lparr> status := st \<rparr>) \<rparr>"

definition verifyTicket :: "nft_state \<Rightarrow> address \<Rightarrow> uint256 \<Rightarrow> nft_state result" where
  "verifyTicket n sender tokenId =
     (if \<not> nft_onlyAdmin n sender then Inl ''Only admin can perform this action''
      else if \<not> exists_token n tokenId then Inl ''Token does not exist''
      else if status (ticketInfo n tokenId) \<noteq> PENDING then Inl ''Ticket not pending verification''
      else Inr (set_status n tokenId VERIFIED))"

definition lockTicket :: "nft_state \<Rightarrow> address \<Rightarrow> uint256 \<Rightarrow> nft_state result" where
  "lockTicket n sender tokenId =
     (if \<not> authorizedMarketplace n sender then Inl ''Only authorized marketplace''
      else if \<not> exists_token n tokenId then Inl ''Token does not exist''
      else if status (ticketInfo n tokenId) \<noteq> VERIFIED then Inl ''Ticket not verified''
      else Inr (set_status (n\<lparr> isLocked := (isLocked n)(tokenId := True) \<rparr>) tokenId LOCKED))"

definition unlockTicket :: "nft_state \<Rightarrow> address \<Rightarrow> uint256 \<Rightarrow> nft_state result" where
  "unlockTicket n sender tokenId =
     (if \<not> authorizedMarketplace n sender then Inl ''Only authorized marketplace''
      else if \<not> exists_token n tokenId then Inl ''Token does not exist''
      else if \<not> isLocked n tokenId then Inl ''Token not locked''
      else Inr (set_status (n\<lparr> isLocked := (isLocked n)(tokenId := False) \<rparr>) tokenId UNLOCKED))"

definition markAsDisputed :: "nft_state \<Rightarrow> address \<Rightarrow> uint256 \<Rightarrow> nft_state result" where
  "markAsDisputed n sender tokenId =
     (if \<not> authorizedMarketplace n sender then Inl ''Only authorized marketplace''
      else if \<not> exists_token n tokenId then Inl ''Token does not exist''
      else Inr (set_status n tokenId DISPUTED))"

definition nft_addAdmin :: "nft_state \<Rightarrow> address \<Rightarrow> address \<Rightarrow> nft_state result" where
  "nft_addAdmin n sender admin =
     (if sender \<noteq> nft_owner n then Inl ''Ownable: caller is not the owner''
      else Inr (n\<lparr> nft_admins := (nft_admins n)(admin := True) \<rparr>))"

definition nft_removeAdmin :: "nft_state \<Rightarrow> address \<Rightarrow> address \<Rightarrow> nft_state result" where
  "nft_removeAdmin n sender admin =
     (if sender \<noteq> nft_owner n then Inl ''Ownable: caller is not the owner''
      else Inr (n\<lparr> nft_admins := (nft_admins n)(admin := False) \<rparr>))"

definition authorizeMarketplace :: "nft_state \<Rightarrow> address \<Rightarrow> address \<Rightarrow> nft_state result" where
  "authorizeMarketplace n sender marketplace =
     (if sender \<noteq> nft_owner n then Inl ''Ownable: caller is not the owner''
      else Inr (n\<lparr> authorizedMarketplace := (authorizedMarketplace n)(marketplace := True) \<rparr>))"

text \<open>
  The ordinary transfer: the \<^verbatim>\<open>notLocked\<close> modifier runs first, then the inherited
  \<^verbatim>\<open>transferFrom\<close> (caller is the owner or approved, then \<^verbatim>\<open>_transfer\<close>).
\<close>

definition transferFrom ::
  "nft_state \<Rightarrow> address \<Rightarrow> address \<Rightarrow> address \<Rightarrow> uint256 \<Rightarrow> nft_state result" where
  "transferFrom n sender from to tokenId =
     (if isLocked n tokenId then Inl ''Token is locked''
      else case isApprovedOrOwner n sender tokenId of
        Inl e \<Rightarrow> Inl e
      | Inr ok \<Rightarrow>
          if \<not> ok then Inl ''ERC721: caller is not token owner or approved''
          else transfer_internal n from to tokenId)"

text \<open>
  Both overloads of \<^verbatim>\<open>safeTransferFrom\<close> (with and without the \<^verbatim>\<open>data\<close> argument, which
  only the receiver sees) add the receiver check after the transfer.
\<close>

definition safeTransferFrom ::
  "nft_state \<Rightarrow> (address \<Rightarrow> bool) \<Rightarrow> address \<Rightarrow> address \<Rightarrow> address \<Rightarrow> uint256 \<Rightarrow> nft_state result" where
  "safeTransferFrom n acceptsERC721 sender from to tokenId =
     (if isLocked n tokenId then Inl ''Token is locked''
      else case isApprovedOrOwner n sender tokenId of
        Inl e \<Rightarrow> Inl e
      | Inr ok \<Rightarrow>
          if \<not> ok then Inl ''ERC721: caller is not token owner or approved''
          else (case transfer_internal n from to tokenId of
                  Inl e \<Rightarrow> Inl e
                | Inr n' \<Rightarrow>
                    if \<not> acceptsERC721 to
                      then Inl ''ERC721: transfer to non ERC721Receiver implementer''
                    else Inr n'))"

definition marketplaceTransfer ::
  "nft_state \<Rightarrow> address \<Rightarrow> address \<Rightarrow> address \<Rightarrow> uint256 \<Rightarrow> nft_state result" where
  "marketplaceTransfer n sender from to tokenId =
     (if \<not> authorizedMarketplace n sender then Inl ''Only authorized marketplace''
      else transfer_internal n from to tokenId)"

definition getTicketInfo :: "nft_state \<Rightarrow> uint256 \<Rightarrow> TicketInfo result" where
  "getTicketInfo n tokenId =
     (if \<not> exists_token n tokenId then Inl ''Token does not exist''
      else Inr (ticketInfo n tokenId))"

definition nft_pause :: "nft_state \<Rightarrow> address \<Rightarrow> nft_state result" where
  "nft_pause n sender =
     (if sender \<noteq> nft_owner n then Inl ''Ownable: caller is not the owner''
      else if nft_paused n then Inl ''Pausable: paused''
      else Inr (n\<lparr> nft_paused := True \<rparr>))"

definition nft_unpause :: "nft_state \<Rightarrow> address \<Rightarrow> nft_state result" where
  "nft_unpause n sender =
     (if sender \<noteq> nft_owner n then Inl ''Ownable: caller is not the owner''
      else if \<not> nft_paused n then Inl ''Pausable: not paused''
      else Inr (n\<lparr> nft_paused := False \<rparr>))"

definition totalSupply :: "nft_state \<Rightarrow> uint256" where
  "totalSupply n = tokenIdCounter n"

text \<open>The inherited approval functions of ERC721.\<close>

definition approve :: "nft_state \<Rightarrow> address \<Rightarrow> address \<Rightarrow> uint256 \<Rightarrow> nft_state result" where
  "approve n sender to tokenId =
     (case ownerOf n tokenId of
        Inl e \<Rightarrow> Inl e
      | Inr ownr \<Rightarrow>
          if to = ownr then Inl ''ERC721: approval to current owner''
          else if \<not> (sender = ownr \<or> operatorApprovals n ownr sender)
            then Inl ''ERC721: approve caller is not token owner or approved for all''
          else Inr (n\<lparr> tokenApprovals := (tokenApprovals n)(tokenId := to) \<rparr>))"

definition setApprovalForAll :: "nft_state \<Rightarrow> address \<Rightarrow> address \<Rightarrow> bool \<Rightarrow> nft_state result" where
  "setApprovalForAll n sender operator approved =
     (if sender = operator then Inl ''ERC721: approve to caller''
      else Inr (n\<lparr> operatorApprovals :=
                    (operatorApprovals n)(sender := (operatorApprovals n sender)(operator := approved)) \<rparr>))"

text \<open>
  The inherited \<^verbatim>\<open>burn\<close> of ERC721Burnable: the caller is the owner or approved, then
  \<^verbatim>\<open>_burn\<close> (with the \<^verbatim>\<open>_beforeTokenTransfer\<close> hook, so not while paused) clears the
  approval, the owner entry and the token URI. The contract does not override \<^verbatim>\<open>burn\<close>:
  there is no \<^verbatim>\<open>notLocked\<close> on it, and the ticket record and the lock flag stay as they
  are.
\<close>

definition burn :: "nft_state \<Rightarrow> address \<Rightarrow> uint256 \<Rightarrow> nft_state result" where
  "burn n sender tokenId =
     (case isApprovedOrOwner n sender tokenId of
        Inl e \<Rightarrow> Inl e
      | Inr ok \<Rightarrow>
          if \<not> ok then Inl ''ERC721: caller is not token owner or approved''
          else if nft_paused n then Inl ''Pausable: paused''
          else Inr (n\<lparr> tokenApprovals := (tokenApprovals n)(tokenId := 0),
                       owners := (owners n)(tokenId := 0),
                       tokenURIs := (tokenURIs n)(tokenId := []) \<rparr>))"

text \<open>The inherited ownership functions of Ownable.\<close>

definition nft_transferOwnership :: "nft_state \<Rightarrow> address \<Rightarrow> address \<Rightarrow> nft_state result" where
  "nft_transferOwnership n sender newOwner =
     (if sender \<noteq> nft_owner n then Inl ''Ownable: caller is not the owner''
      else if newOwner = 0 then Inl ''Ownable: new owner is the zero address''
      else Inr (n\<lparr> nft_owner := newOwner \<rparr>))"

definition nft_renounceOwnership :: "nft_state \<Rightarrow> address \<Rightarrow> nft_state result" where
  "nft_renounceOwnership n sender =
     (if sender \<noteq> nft_owner n then Inl ''Ownable: caller is not the owner''
      else Inr (n\<lparr> nft_owner := 0 \<rparr>))"

section \<open>TicketMarketplace\<close>

text \<open>
  The two structs. Record fields are global names, so the fields that both structs have
  carry a prefix in one of them: \<open>l_tokenId\<close> is \<^verbatim>\<open>Listing.tokenId\<close>, and \<open>e_tokenId\<close>,
  \<open>e_seller\<close>, \<open>e_price\<close> are \<^verbatim>\<open>EscrowTransaction.tokenId\<close>, \<^verbatim>\<open>.seller\<close>, \<^verbatim>\<open>.price\<close>.
\<close>

record Listing =
  l_tokenId :: uint256
  seller :: address
  price :: uint256
  active :: bool
  timestamp :: uint256

record EscrowTransaction =
  e_tokenId :: uint256
  e_seller :: address
  buyer :: address
  e_price :: uint256
  startTime :: uint256
  sellerConfirmed :: bool
  buyerConfirmed :: bool
  disputed :: bool
  completed :: bool
  disputeReason :: string

text \<open>
  The marketplace's storage together with what it touches: the token contract \<open>nft\<close> it
  was constructed with, its own address \<open>this\<close>, and the ether balance of every address
  (\<open>balances s (this s)\<close> is \<^verbatim>\<open>address(this).balance\<close>). \<open>acceptsEther\<close> and
  \<open>acceptsERC721\<close> describe the other accounts: whether an address takes a plain ether
  transfer, and whether it passes the ERC721 receiver check.

  \<^verbatim>\<open>nonReentrant\<close> is not modelled: every external call that a guarded function of the
  marketplace makes is either to the token contract, in a function that calls no
  receiver, or a \<^verbatim>\<open>transfer\<close> with the fixed gas stipend, so no nested entry occurs while
  the guard is held. The receiver call of \<^verbatim>\<open>safeTransferFrom\<close> (also inside
  \<^verbatim>\<open>emergencyRecoverToken\<close>, which has no guard) is the last thing the function does:
  what the receiver does there is the same as transactions that follow.
\<close>

record world =
  nft :: nft_state
  this :: address
  marketplaceFee :: uint256
  listings :: "uint256 \<Rightarrow> Listing"
  escrowTransactions :: "uint256 \<Rightarrow> EscrowTransaction"
  admins :: "address \<Rightarrow> bool"
  listedTokenIds :: "uint256 list"
  escrowTokenIds :: "uint256 list"
  owner :: address
  paused :: bool
  balances :: "address \<Rightarrow> nat"
  acceptsEther :: "address \<Rightarrow> bool"
  acceptsERC721 :: "address \<Rightarrow> bool"

definition CONFIRMATION_PERIOD :: uint256 where
  "CONFIRMATION_PERIOD = 7 * 24 * 60 * 60"

definition MAX_FEE :: uint256 where
  "MAX_FEE = 1000"

definition emptyListing :: Listing where
  "emptyListing = \<lparr> l_tokenId = 0, seller = 0, price = 0, active = False, timestamp = 0 \<rparr>"

definition emptyEscrow :: EscrowTransaction where
  "emptyEscrow = \<lparr> e_tokenId = 0, e_seller = 0, buyer = 0, e_price = 0, startTime = 0,
     sellerConfirmed = False, buyerConfirmed = False, disputed = False, completed = False,
     disputeReason = [] \<rparr>"

text \<open>
  The state right after deployment of the marketplace at address \<open>self\<close> by \<open>deployer\<close>,
  for a token contract in state \<open>n\<close>.
\<close>

definition mkt_constructor ::
  "nft_state \<Rightarrow> address \<Rightarrow> address \<Rightarrow> (address \<Rightarrow> nat) \<Rightarrow> (address \<Rightarrow> bool) \<Rightarrow> (address \<Rightarrow> bool)
     \<Rightarrow> world" where
  "mkt_constructor n self deployer bal accE acc721 =
     \<lparr> nft = n, this = self, marketplaceFee = 250, listings = (\<lambda>_. emptyListing),
       escrowTransactions = (\<lambda>_. emptyEscrow), admins = (\<lambda>a. a = deployer),
       listedTokenIds = [], escrowTokenIds = [], owner = deployer, paused = False,
       balances = bal, acceptsEther = accE, acceptsERC721 = acc721 \<rparr>"

subsection \<open>Ether\<close>

text \<open>
  \<^verbatim>\<open>payable(to).transfer(amount)\<close>: reverts when the contract holds less than \<open>amount\<close> or
  the recipient does not take the payment. A payment to the marketplace itself runs its
  \<^verbatim>\<open>receive\<close> function, which always reverts. Solidity gives these two reverts no
  message of their own; the strings name the cause. Balances are unbounded naturals: the
  ether in existence is far below \<open>2 ^ 256\<close>.
\<close>

definition transfer_ether :: "world \<Rightarrow> address \<Rightarrow> nat \<Rightarrow> world result" where
  "transfer_ether s to amount =
     (if balances s (this s) < amount then Inl ''transfer: insufficient balance''
      else if to = this s then Inl ''Direct transfers not allowed''
      else if \<not> acceptsEther s to then Inl ''transfer: recipient reverted''
      else Inr (s\<lparr> balances := (balances s)(this s := balances s (this s) - amount,
                                            to := balances s to + amount) \<rparr>))"

text \<open>
  The value sent with a call to a \<^verbatim>\<open>payable\<close> function moves from the caller to the
  contract before the body runs; a caller cannot send more than it has.
\<close>

definition receive_value :: "world \<Rightarrow> address \<Rightarrow> nat \<Rightarrow> world result" where
  "receive_value s sender val =
     (if balances s sender < val then Inl ''insufficient funds for value''
      else if sender = this s then Inr s
      else Inr (s\<lparr> balances := (balances s)(sender := balances s sender - val,
                                            this s := balances s (this s) + val) \<rparr>))"

subsection \<open>Internal functions\<close>

definition isInEscrow :: "world \<Rightarrow> uint256 \<Rightarrow> bool" where
  "isInEscrow s tokenId =
     (let escrow = escrowTransactions s tokenId in e_price escrow > 0 \<and> \<not> completed escrow)"

text \<open>
  The loop shared by \<^verbatim>\<open>_removeFromListedTokens\<close> and \<^verbatim>\<open>_removeFromEscrowTokens\<close>: at the
  first index holding \<open>tokenId\<close>, overwrite it with the last element, pop, and stop.
\<close>

function removeFrom_loop :: "uint256 \<Rightarrow> nat \<Rightarrow> uint256 list \<Rightarrow> uint256 list" where
  "removeFrom_loop tokenId i xs =
     (if i < length xs then
        (if xs ! i = tokenId then butlast (xs[i := xs ! (length xs - 1)])
         else removeFrom_loop tokenId (Suc i) xs)
      else xs)"
  by pat_completeness auto
termination
  by (relation "measure (\<lambda>(tokenId, i, xs). length xs - i)") auto

declare removeFrom_loop.simps [simp del]

definition removeFromListedTokens :: "world \<Rightarrow> uint256 \<Rightarrow> world" where
  "removeFromListedTokens s tokenId =
     s\<lparr> listedTokenIds := removeFrom_loop tokenId 0 (listedTokenIds s) \<rparr>"

definition removeFromEscrowTokens :: "world \<Rightarrow> uint256 \<Rightarrow> world" where
  "removeFromEscrowTokens s tokenId =
     s\<lparr> escrowTokenIds := removeFrom_loop tokenId 0 (escrowTokenIds s) \<rparr>"

definition settlement_fee :: "world \<Rightarrow> uint256 \<Rightarrow> uint256" where
  "settlement_fee s p = (p * marketplaceFee s) div 10000"

definition releaseFundsToSeller :: "world \<Rightarrow> uint256 \<Rightarrow> world result" where
  "releaseFundsToSeller s tokenId =
     (let escrow = escrowTransactions s tokenId in
      if e_price escrow * marketplaceFee s > MAX_UINT256 then Inl arithmetic_panic
      else
        let fee = (e_price escrow * marketplaceFee s) div 10000 in
        if e_price escrow < fee then Inl arithmetic_panic
        else
          let sellerAmount = e_price escrow - fee in
          transfer_ether s (e_seller escrow) sellerAmount)"

definition refundBuyer :: "world \<Rightarrow> uint256 \<Rightarrow> world result" where
  "refundBuyer s tokenId =
     (let escrow = escrowTransactions s tokenId in
      transfer_ether s (buyer escrow) (e_price escrow))"

definition set_completed :: "world \<Rightarrow> uint256 \<Rightarrow> world" where
  "set_completed s tokenId =
     s\<lparr> escrowTransactions := (escrowTransactions s)
          (tokenId := (escrowTransactions s tokenId)\<lparr> completed := True \<rparr>) \<rparr>"

definition completeEscrow :: "world \<Rightarrow> uint256 \<Rightarrow> world result" where
  "completeEscrow s tokenId =
     (case releaseFundsToSeller s tokenId of
        Inl e \<Rightarrow> Inl e
      | Inr s1 \<Rightarrow>
          (case unlockTicket (nft s1) (this s1) tokenId of
             Inl e \<Rightarrow> Inl e
           | Inr n' \<Rightarrow>
               Inr (removeFromEscrowTokens (set_completed (s1\<lparr> nft := n' \<rparr>) tokenId) tokenId)))"

definition onlyAdmin :: "world \<Rightarrow> address \<Rightarrow> bool" where
  "onlyAdmin s sender = (admins s sender \<or> sender = owner s)"

definition validTokenId :: "world \<Rightarrow> uint256 \<Rightarrow> bool" where
  "validTokenId s tokenId = (tokenId < totalSupply (nft s))"

subsection \<open>External functions\<close>

definition listTicket :: "world \<Rightarrow> uint256 \<Rightarrow> address \<Rightarrow> uint256 \<Rightarrow> uint256 \<Rightarrow> world result" where
  "listTicket s now sender tokenId p =
     (if paused s then Inl ''Pausable: paused''
      else if \<not> validTokenId s tokenId then Inl ''Invalid token ID''
      else case ownerOf (nft s) tokenId of
        Inl e \<Rightarrow> Inl e
      | Inr ownr \<Rightarrow>
          if ownr \<noteq> sender then Inl ''You don't own this ticket''
          else if \<not> p > 0 then Inl ''Price must be greater than 0''
          else if active (listings s tokenId) then Inl ''Ticket already listed''
          else (case getTicketInfo (nft s) tokenId of
                  Inl e \<Rightarrow> Inl e
                | Inr info \<Rightarrow>
                    if \<not> (status info = VERIFIED \<or> status info = UNLOCKED)
                      then Inl ''Ticket not verified or available for sale''
                    else Inr (s\<lparr> listings := (listings s)(tokenId :=
                                    \<lparr> l_tokenId = tokenId, seller = sender, price = p,
                                      active = True, timestamp = now \<rparr>),
                                 listedTokenIds := listedTokenIds s @ [tokenId] \<rparr>)))"

definition set_inactive :: "world \<Rightarrow> uint256 \<Rightarrow> world" where
  "set_inactive s tokenId =
     s\<lparr> listings := (listings s)(tokenId := (listings s tokenId)\<lparr> active := False \<rparr>) \<rparr>"

definition unlistTicket :: "world \<Rightarrow> address \<Rightarrow> uint256 \<Rightarrow> world result" where
  "unlistTicket s sender tokenId =
     (if \<not> validTokenId s tokenId then Inl ''Invalid token ID''
      else if seller (listings s tokenId) \<noteq> sender then Inl ''You didn't list this ticket''
      else if \<not> active (listings s tokenId) then Inl ''Ticket not listed''
      else if isInEscrow s tokenId then Inl ''Ticket is in escrow''
      else Inr (removeFromListedTokens (set_inactive s tokenId) tokenId))"

text \<open>
  \<^verbatim>\<open>purchaseTicket\<close> is payable: \<open>val\<close> is \<^verbatim>\<open>msg.value\<close>. The listing is read into memory
  once, before the checks; the calls into the token contract come from the marketplace's
  address.
\<close>

definition purchaseTicket :: "world \<Rightarrow> uint256 \<Rightarrow> address \<Rightarrow> uint256 \<Rightarrow> uint256 \<Rightarrow> world result" where
  "purchaseTicket s0 now sender val tokenId =
     (case receive_value s0 sender val of
        Inl e \<Rightarrow> Inl e
      | Inr s \<Rightarrow>
          if paused s then Inl ''Pausable: paused''
          else if \<not> validTokenId s tokenId then Inl ''Invalid token ID''
          else
            let listing = listings s tokenId in
            if \<not> active listing then Inl ''Ticket not for sale''
            else if val \<noteq> price listing then Inl ''Incorrect payment amount''
            else if sender = seller listing then Inl ''Cannot buy your own ticket''
            else if isInEscrow s tokenId then Inl ''Ticket already in escrow''
            else (case lockTicket (nft s) (this s) tokenId of
              Inl e \<Rightarrow> Inl e
            | Inr n1 \<Rightarrow>
                let s1 = s\<lparr> nft := n1,
                            escrowTransactions := (escrowTransactions s)(tokenId :=
                              \<lparr> e_tokenId = tokenId, e_seller = seller listing, buyer = sender,
                                e_price = price listing, startTime = now,
                                sellerConfirmed = False, buyerConfirmed = False,
                                disputed = False, completed = False, disputeReason = [] \<rparr>) \<rparr>
                in (case marketplaceTransfer (nft s1) (this s1) (seller listing) sender tokenId of
                  Inl e \<Rightarrow> Inl e
                | Inr n2 \<Rightarrow>
                    let s2 = removeFromListedTokens (set_inactive (s1\<lparr> nft := n2 \<rparr>) tokenId) tokenId
                    in Inr (s2\<lparr> escrowTokenIds := escrowTokenIds s2 @ [tokenId] \<rparr>))))"

definition set_escrow :: "world \<Rightarrow> uint256 \<Rightarrow> EscrowTransaction \<Rightarrow> world" where
  "set_escrow s tokenId e = s\<lparr> escrowTransactions := (escrowTransactions s)(tokenId := e) \<rparr>"

definition confirmTransaction :: "world \<Rightarrow> address \<Rightarrow> uint256 \<Rightarrow> world result" where
  "confirmTransaction s sender tokenId =
     (if \<not> validTokenId s tokenId then Inl ''Invalid token ID''
      else
        let escrow = escrowTransactions s tokenId in
        if \<not> e_price escrow > 0 then Inl ''No escrow transaction found''
        else if completed escrow then Inl ''Transaction already completed''
        else if disputed escrow then Inl ''Transaction is disputed''
        else if \<not> (sender = buyer escrow \<or> sender = e_seller escrow)
          then Inl ''Not authorized to confirm''
        else
          case (if sender = e_seller escrow
                then (if sellerConfirmed escrow then Inl ''Already confirmed by seller''
                      else Inr (escrow\<lparr> sellerConfirmed := True \<rparr>))
                else (if buyerConfirmed escrow then Inl ''Already confirmed by buyer''
                      else Inr (escrow\<lparr> buyerConfirmed := True \<rparr>))) of
            Inl e \<Rightarrow> Inl e
          | Inr escrow' \<Rightarrow>
              let s1 = set_escrow s tokenId escrow' in
              if sellerConfirmed escrow' \<and> buyerConfirmed escrow' then completeEscrow s1 tokenId
              else Inr s1)"

definition autoReleaseEscrow :: "world \<Rightarrow> uint256 \<Rightarrow> uint256 \<Rightarrow> world result" where
  "autoReleaseEscrow s now tokenId =
     (if \<not> validTokenId s tokenId then Inl ''Invalid token ID''
      else
        let escrow = escrowTransactions s tokenId in
        if \<not> e_price escrow > 0 then Inl ''No escrow transaction found''
        else if completed escrow then Inl ''Transaction already completed''
        else if disputed escrow then Inl ''Transaction is disputed''
        else if startTime escrow + CONFIRMATION_PERIOD > MAX_UINT256 then Inl arithmetic_panic
        else if \<not> now \<ge> startTime escrow + CONFIRMATION_PERIOD
          then Inl ''Confirmation period not ended''
        else completeEscrow s tokenId)"

definition raiseDispute :: "world \<Rightarrow> address \<Rightarrow> uint256 \<Rightarrow> string \<Rightarrow> world result" where
  "raiseDispute s sender tokenId reason =
     (if \<not> validTokenId s tokenId then Inl ''Invalid token ID''
      else
        let escrow = escrowTransactions s tokenId in
        if \<not> e_price escrow > 0 then Inl ''No escrow transaction found''
        else if completed escrow then Inl ''Transaction already completed''
        else if disputed escrow then Inl ''Dispute already raised''
        else if \<not> (sender = buyer escrow \<or> sender = e_seller escrow)
          then Inl ''Not authorized to raise dispute''
        else
          let s1 = set_escrow s tokenId (escrow\<lparr> disputed := True, disputeReason := reason \<rparr>)
          in case markAsDisputed (nft s1) (this s1) tokenId of
            Inl e \<Rightarrow> Inl e
          | Inr n' \<Rightarrow> Inr (s1\<lparr> nft := n' \<rparr>))"

definition resolveDispute :: "world \<Rightarrow> address \<Rightarrow> uint256 \<Rightarrow> bool \<Rightarrow> world result" where
  "resolveDispute s sender tokenId sellerWins =
     (if \<not> onlyAdmin s sender then Inl ''Only admin can perform this action''
      else if \<not> validTokenId s tokenId then Inl ''Invalid token ID''
      else
        let escrow = escrowTransactions s tokenId in
        if \<not> disputed escrow then Inl ''No dispute to resolve''
        else if completed escrow then Inl ''Transaction already completed''
        else
          case (if sellerWins then
                  (case releaseFundsToSeller s tokenId of
                     Inl e \<Rightarrow> Inl e
                   | Inr s1 \<Rightarrow>
                       (case unlockTicket (nft s1) (this s1) tokenId of
                          Inl e \<Rightarrow> Inl e
                        | Inr n' \<Rightarrow> Inr (s1\<lparr> nft := n' \<rparr>)))
                else
                  (case refundBuyer s tokenId of
                     Inl e \<Rightarrow> Inl e
                   | Inr s1 \<Rightarrow>
                       (case marketplaceTransfer (nft s1) (this s1) (buyer escrow)
                               (e_seller escrow) tokenId of
                          Inl e \<Rightarrow> Inl e
                        | Inr n1 \<Rightarrow>
                            (case unlockTicket n1 (this s1) tokenId of
                               Inl e \<Rightarrow> Inl e
                             | Inr n' \<Rightarrow> Inr (s1\<lparr> nft := n' \<rparr>))))) of
            Inl e \<Rightarrow> Inl e
          | Inr s2 \<Rightarrow> Inr (removeFromEscrowTokens (set_completed s2 tokenId) tokenId))"

definition getActiveListings :: "world \<Rightarrow> uint256 list" where
  "getActiveListings s = filter (\<lambda>t. active (listings s t)) (listedTokenIds s)"

definition getActiveEscrows :: "world \<Rightarrow> uint256 list" where
  "getActiveEscrows s = filter (\<lambda>t. \<not> completed (escrowTransactions s t)) (escrowTokenIds s)"

definition updateMarketplaceFee :: "world \<Rightarrow> address \<Rightarrow> uint256 \<Rightarrow> world result" where
  "updateMarketplaceFee s sender newFee =
     (if sender \<noteq> owner s then Inl ''Ownable: caller is not the owner''
      else if \<not> newFee \<le> MAX_FEE then Inl ''Fee too high''
      else Inr (s\<lparr> marketplaceFee := newFee \<rparr>))"

definition addAdmin :: "world \<Rightarrow> address \<Rightarrow> address \<Rightarrow> world result" where
  "addAdmin s sender admin =
     (if sender \<noteq> owner s then Inl ''Ownable: caller is not the owner''
      else Inr (s\<lparr> admins := (admins s)(admin := True) \<rparr>))"

definition removeAdmin :: "world \<Rightarrow> address \<Rightarrow> address \<Rightarrow> world result" where
  "removeAdmin s sender admin =
     (if sender \<noteq> owner s then Inl ''Ownable: caller is not the owner''
      else Inr (s\<lparr> admins := (admins s)(admin := False) \<rparr>))"

definition withdrawFees :: "world \<Rightarrow> address \<Rightarrow> world result" where
  "withdrawFees s sender =
     (if sender \<noteq> owner s then Inl ''Ownable: caller is not the owner''
      else
        let balance = balances s (this s) in
        if \<not> balance > 0 then Inl ''No fees to withdraw''
        else transfer_ether s (owner s) balance)"

definition pause :: "world \<Rightarrow> address \<Rightarrow> world result" where
  "pause s sender =
     (if sender \<noteq> owner s then Inl ''Ownable: caller is not the owner''
      else if paused s then Inl ''Pausable: paused''
      else Inr (s\<lparr> paused := True \<rparr>))"

definition unpause :: "world \<Rightarrow> address \<Rightarrow> world result" where
  "unpause s sender =
     (if sender \<noteq> owner s then Inl ''Ownable: caller is not the owner''
      else if \<not> paused s then Inl ''Pausable: not paused''
      else Inr (s\<lparr> paused := False \<rparr>))"

definition emergencyRecoverToken :: "world \<Rightarrow> address \<Rightarrow> uint256 \<Rightarrow> world result" where
  "emergencyRecoverToken s sender tokenId =
     (if sender \<noteq> owner s then Inl ''Ownable: caller is not the owner''
      else case ownerOf (nft s) tokenId of
        Inl e \<Rightarrow> Inl e
      | Inr ownr \<Rightarrow>
          if ownr \<noteq> this s then Inl ''Token not in contract''
          else (case safeTransferFrom (nft s) (acceptsERC721 s) (this s) (this s) (owner s)
                       tokenId of
                  Inl e \<Rightarrow> Inl e
                | Inr n' \<Rightarrow> Inr (s\<lparr> nft := n' \<rparr>)))"

text \<open>The inherited ownership functions of Ownable.\<close>

definition transferOwnership :: "world \<Rightarrow> address \<Rightarrow> address \<Rightarrow> world result" where
  "transferOwnership s sender newOwner =
     (if sender \<noteq> owner s then Inl ''Ownable: caller is not the owner''
      else if newOwner = 0 then Inl ''Ownable: new owner is the zero address''
      else Inr (s\<lparr> owner := newOwner \<rparr>))"

definition renounceOwnership :: "world \<Rightarrow> address \<Rightarrow> world result" where
  "renounceOwnership s sender =
     (if sender \<noteq> owner s then Inl ''Ownable: caller is not the owner''
      else Inr (s\<lparr> owner := 0 \<rparr>))"

section \<open>Transactions\<close>

text \<open>
  One constructor per external function of the two contracts, with \<^verbatim>\<open>msg.sender\<close> first
  where the function looks at it. A transaction runs at a block timestamp \<open>now\<close>.
  The functions of the token contract can be called directly by any account: access is
  decided by the contract's own modifiers, and the owner may authorize any address as a
  marketplace.

  The last argument of \<open>MintTicket\<close> is what the recipient does when \<^verbatim>\<open>_safeMint\<close> calls
  it: the calls into the two contracts that are made, by the recipient or by contracts
  it calls, before \<^verbatim>\<open>onERC721Received\<close> returns. They run in the same block, between the
  two phases of \<^verbatim>\<open>mintTicket\<close>, and if one of them reverts the mint reverts (a recipient
  that catches the revert of a call is the recipient that does not make the call). An
  externally owned account is not called: its list is empty.
\<close>

datatype call =
    MintTicket address string string string string uint256 string string "call list"
  | VerifyTicket address uint256
  | LockTicket address uint256
  | UnlockTicket address uint256
  | MarkAsDisputed address uint256
  | NftAddAdmin address address
  | NftRemoveAdmin address address
  | AuthorizeMarketplace address address
  | TransferFrom address address address uint256
  | SafeTransferFrom address address address uint256
  | MarketplaceTransfer address address address uint256
  | NftPause address
  | NftUnpause address
  | Approve address address uint256
  | SetApprovalForAll address address bool
  | Burn address uint256
  | NftTransferOwnership address address
  | NftRenounceOwnership address
  | ListTicket address uint256 uint256
  | UnlistTicket address uint256
  | PurchaseTicket address uint256 uint256
  | ConfirmTransaction address uint256
  | AutoReleaseEscrow uint256
  | RaiseDispute address uint256 string
  | ResolveDispute address uint256 bool
  | UpdateMarketplaceFee address uint256
  | AddAdmin address address
  | RemoveAdmin address address
  | WithdrawFees address
  | Pause address
  | Unpause address
  | EmergencyRecoverToken address uint256
  | TransferOwnership address address
  | RenounceOwnership address

definition on_nft :: "world \<Rightarrow> nft_state result \<Rightarrow> world result" where
  "on_nft s r = (case r of Inl e \<Rightarrow> Inl e | Inr n' \<Rightarrow> Inr (s\<lparr> nft := n' \<rparr>))"

fun exec :: "world \<Rightarrow> uint256 \<Rightarrow> call \<Rightarrow> world result"
  and exec_hook :: "world \<Rightarrow> uint256 \<Rightarrow> call list \<Rightarrow> world result" where
  "exec s now (MintTicket to evName evDate ven seat origPrice proofHash uri hook) =
     (case mintTicket_begin (nft s) to of
        Inl e \<Rightarrow> Inl e
      | Inr (n1, tokenId) \<Rightarrow>
          (case exec_hook (s\<lparr> nft := n1 \<rparr>) now hook of
             Inl e \<Rightarrow> Inl e
           | Inr s2 \<Rightarrow>
               on_nft s2 (mintTicket_finish (nft s2) (acceptsERC721 s2) now to tokenId
                            evName evDate ven seat origPrice proofHash uri)))"
| "exec s now (VerifyTicket sender tokenId) = on_nft s (verifyTicket (nft s) sender tokenId)"
| "exec s now (LockTicket sender tokenId) = on_nft s (lockTicket (nft s) sender tokenId)"
| "exec s now (UnlockTicket sender tokenId) = on_nft s (unlockTicket (nft s) sender tokenId)"
| "exec s now (MarkAsDisputed sender tokenId) = on_nft s (markAsDisputed (nft s) sender tokenId)"
| "exec s now (NftAddAdmin sender a) = on_nft s (nft_addAdmin (nft s) sender a)"
| "exec s now (NftRemoveAdmin sender a) = on_nft s (nft_removeAdmin (nft s) sender a)"
| "exec s now (AuthorizeMarketplace sender m) = on_nft s (authorizeMarketplace (nft s) sender m)"
| "exec s now (TransferFrom sender from to tokenId) =
     on_nft s (transferFrom (nft s) sender from to tokenId)"
| "exec s now (SafeTransferFrom sender from to tokenId) =
     on_nft s (safeTransferFrom (nft s) (acceptsERC721 s) sender from to tokenId)"
| "exec s now (MarketplaceTransfer sender from to tokenId) =
     on_nft s (marketplaceTransfer (nft s) sender from to tokenId)"
| "exec s now (NftPause sender) = on_nft s (nft_pause (nft s) sender)"
| "exec s now (NftUnpause sender) = on_nft s (nft_unpause (nft s) sender)"
| "exec s now (Approve sender to tokenId) = on_nft s (approve (nft s) sender to tokenId)"
| "exec s now (SetApprovalForAll sender operator approved) =
     on_nft s (setApprovalForAll (nft s) sender operator approved)"
| "exec s now (Burn sender tokenId) = on_nft s (burn (nft s) sender tokenId)"
| "exec s now (NftTransferOwnership sender newOwner) =
     on_nft s (nft_transferOwnership (nft s) sender newOwner)"
| "exec s now (NftRenounceOwnership sender) = on_nft s (nft_renounceOwnership (nft s) sender)"
| "exec s now (ListTicket sender tokenId p) = listTicket s now sender tokenId p"
| "exec s now (UnlistTicket sender tokenId) = unlistTicket s sender tokenId"
| "exec s now (PurchaseTicket sender val tokenId) = purchaseTicket s now sender val tokenId"
| "exec s now (ConfirmTransaction sender tokenId) = confirmTransaction s sender tokenId"
| "exec s now (AutoReleaseEscrow tokenId) = autoReleaseEscrow s now tokenId"
| "exec s now (RaiseDispute sender tokenId reason) = raiseDispute s sender tokenId reason"
| "exec s now (ResolveDispute sender tokenId sellerWins) = resolveDispute s sender tokenId sellerWins"
| "exec s now (UpdateMarketplaceFee sender newFee) = updateMarketplaceFee s sender newFee"
| "exec s now (AddAdmin sender a) = addAdmin s sender a"
| "exec s now (RemoveAdmin sender a) = removeAdmin s sender a"
| "exec s now (WithdrawFees sender) = withdrawFees s sender"
| "exec s now (Pause sender) = pause s sender"
| "exec s now (Unpause sender) = unpause s sender"
| "exec s now (EmergencyRecoverToken sender tokenId) = emergencyRecoverToken s sender tokenId"
| "exec s now (TransferOwnership sender newOwner) = transferOwnership s sender newOwner"
| "exec s now (RenounceOwnership sender) = renounceOwnership s sender"
| "exec_hook s now [] = Inr s"
| "exec_hook s now (c # cs) =
     (case exec s now c of Inl e \<Rightarrow> Inl e | Inr s' \<Rightarrow> exec_hook s' now cs)"

text \<open>
  The ids whose ticket record a transaction writes: the id of every mint that finishes
  in it, the mints made inside a recipient's call included.
\<close>

fun minted_ids :: "world \<Rightarrow> uint256 \<Rightarrow> call \<Rightarrow> uint256 list"
  and hook_minted_ids :: "world \<Rightarrow> uint256 \<Rightarrow> call list \<Rightarrow> uint256 list" where
  "minted_ids s now (MintTicket to evName evDate ven seat origPrice proofHash uri hook) =
     (case mintTicket_begin (nft s) to of
        Inl e \<Rightarrow> []
      | Inr (n1, tokenId) \<Rightarrow> hook_minted_ids (s\<lparr> nft := n1 \<rparr>) now hook @ [tokenId])"
| "minted_ids s now _ = []"
| "hook_minted_ids s now [] = []"
| "hook_minted_ids s now (c # cs) =
     minted_ids s now c
       @ (case exec s now c of Inl e \<Rightarrow> [] | Inr s' \<Rightarrow> hook_minted_ids s' now cs)"

fun is_mint :: "call \<Rightarrow> bool" where
  "is_mint (MintTicket to evName evDate ven seat origPrice proofHash uri hook) = True"
| "is_mint _ = False"

text \<open>A sequence of transactions, each with its timestamp; it stops at the first revert.\<close>

fun run :: "world \<Rightarrow> (uint256 \<times> call) list \<Rightarrow> world result" where
  "run s [] = Inr s"
| "run s ((now, c) # cs) = (case exec s now c of Inl e \<Rightarrow> Inl e | Inr s' \<Rightarrow> run s' cs)"

text \<open>
  The states the system can be in: the token contract and then the marketplace are
  deployed, and any sequence of successful transactions follows.
\<close>

inductive reachable :: "world \<Rightarrow> bool" where
  deployed: "reachable (mkt_constructor (nft_constructor d1) self d2 bal accE acc721)"
| transaction: "reachable s \<Longrightarrow> exec s now c = Inr s' \<Longrightarrow> reachable s'"

text \<open>\<open>future s s'\<close>: \<open>s'\<close> is \<open>s\<close> after zero or more successful transactions.\<close>

inductive future :: "world \<Rightarrow> world \<Rightarrow> bool" where
  now_: "future s s"
| later: "future s s' \<Longrightarrow> exec s' now c = Inr s'' \<Longrightarrow> future s s''"

text \<open>
  \<open>future_without_mint t s s'\<close>: \<open>s'\<close> is \<open>s\<close> after zero or more successful transactions in
  none of which the id \<open>t\<close> is minted.
\<close>

inductive future_without_mint :: "uint256 \<Rightarrow> world \<Rightarrow> world \<Rightarrow> bool" where
  now_: "future_without_mint t s s"
| later: "future_without_mint t s s' \<Longrightarrow> exec s' now c = Inr s''
            \<Longrightarrow> t \<notin> set (minted_ids s' now c) \<Longrightarrow> future_without_mint t s s''"

section \<open>Notions used in the properties\<close>

text \<open>
  One successful call of an external function of the token contract other than
  \<^verbatim>\<open>mintTicket\<close>, whoever makes it.
\<close>

inductive nft_step :: "nft_state \<Rightarrow> nft_state \<Rightarrow> bool" where
  verify: "verifyTicket n sender tokenId = Inr n' \<Longrightarrow> nft_step n n'"
| lock: "lockTicket n sender tokenId = Inr n' \<Longrightarrow> nft_step n n'"
| unlock: "unlockTicket n sender tokenId = Inr n' \<Longrightarrow> nft_step n n'"
| dispute: "markAsDisputed n sender tokenId = Inr n' \<Longrightarrow> nft_step n n'"
| add_admin: "nft_addAdmin n sender x = Inr n' \<Longrightarrow> nft_step n n'"
| remove_admin: "nft_removeAdmin n sender x = Inr n' \<Longrightarrow> nft_step n n'"
| authorize: "authorizeMarketplace n sender x = Inr n' \<Longrightarrow> nft_step n n'"
| transfer: "transferFrom n sender from to tokenId = Inr n' \<Longrightarrow> nft_step n n'"
| safe_transfer: "safeTransferFrom n acc sender from to tokenId = Inr n' \<Longrightarrow> nft_step n n'"
| privileged: "marketplaceTransfer n sender from to tokenId = Inr n' \<Longrightarrow> nft_step n n'"
| pause: "nft_pause n sender = Inr n' \<Longrightarrow> nft_step n n'"
| unpause: "nft_unpause n sender = Inr n' \<Longrightarrow> nft_step n n'"
| approve: "approve n sender to tokenId = Inr n' \<Longrightarrow> nft_step n n'"
| approve_all: "setApprovalForAll n sender operator approved = Inr n' \<Longrightarrow> nft_step n n'"
| burn: "burn n sender tokenId = Inr n' \<Longrightarrow> nft_step n n'"
| transfer_ownership: "nft_transferOwnership n sender x = Inr n' \<Longrightarrow> nft_step n n'"
| renounce_ownership: "nft_renounceOwnership n sender = Inr n' \<Longrightarrow> nft_step n n'"



text \<open>
  A token that has left escrow (or was marked disputed outside one): it is not locked,
  and its status is \<open>UNLOCKED\<close> or \<open>DISPUTED\<close>.
\<close>

definition sold :: "nft_state \<Rightarrow> uint256 \<Rightarrow> bool" where
  "sold n t =
     (\<not> isLocked n t
      \<and> (status (ticketInfo n t) = UNLOCKED \<or> status (ticketInfo n t) = DISPUTED))"

text \<open>
  What \<^verbatim>\<open>_completeEscrow\<close> needs in order not to revert: the fee computation stays within
  256 bits, the marketplace holds the seller's amount, the seller is another account that
  takes ether, and the token contract lets the marketplace unlock the ticket.
\<close>

definition can_settle :: "world \<Rightarrow> uint256 \<Rightarrow> bool" where
  "can_settle s t =
     (let e = escrowTransactions s t; fee = settlement_fee s (e_price e) in
      e_price e * marketplaceFee s \<le> MAX_UINT256 \<and> fee \<le> e_price e
      \<and> e_price e - fee \<le> balances s (this s)
      \<and> e_seller e \<noteq> this s \<and> acceptsEther s (e_seller e)
      \<and> authorizedMarketplace (nft s) (this s) \<and> exists_token (nft s) t \<and> isLocked (nft s) t)"

text \<open>
  The two index arrays hold exactly the tokens with an active listing and with an open
  escrow, each at most once, and an active listing has a positive price.
\<close>

definition index_consistent :: "world \<Rightarrow> bool" where
  "index_consistent s =
     (distinct (escrowTokenIds s) \<and> (\<forall>t. (t \<in> set (escrowTokenIds s)) = isInEscrow s t)
      \<and> distinct (listedTokenIds s) \<and> (\<forall>t. (t \<in> set (listedTokenIds s)) = active (listings s t))
      \<and> (\<forall>t. active (listings s t) \<longrightarrow> price (listings s t) > 0))"

subsection \<open>A concrete marketplace\<close>

text \<open>
  A scenario with the data of the repository's tests: account 1 deploys both contracts
  (so it is owner and admin of both), the marketplace lives at address 100, account 2 is
  the seller and account 3 the buyer. Token 0 is the only ticket. \<open>funds m ow sl b\<close> are
  the ether balances of the marketplace, the owner, the seller and the buyer. \<open>scene\<close> is
  the state with token 0 in status \<open>st\<close>, lock flag \<open>lk\<close>, held by \<open>holder\<close>, with the
  listing \<open>l\<close> and the escrow record \<open>e\<close> stored for it.
\<close>

definition funds :: "nat \<Rightarrow> nat \<Rightarrow> nat \<Rightarrow> nat \<Rightarrow> address \<Rightarrow> nat" where
  "funds m ow sl b = (\<lambda>a. if a = 100 then m else if a = 1 then ow else if a = 2 then sl
                          else if a = 3 then b else 0)"

definition ticket0 :: "TicketStatus \<Rightarrow> TicketInfo" where
  "ticket0 st = \<lparr> eventName = ''Rock Concert 2024'', eventDate = ''2024-12-31'',
     venue = ''Madison Square Garden'', seatInfo = ''Section A, Row 5, Seat 10'',
     originalPrice = 1000, originalSeller = 2, status = st, listingTimestamp = 11,
     proofImageHash = ''QmYw'' \<rparr>"

definition scene ::
  "TicketStatus \<Rightarrow> bool \<Rightarrow> address \<Rightarrow> Listing \<Rightarrow> EscrowTransaction \<Rightarrow> uint256 list \<Rightarrow> uint256 list
     \<Rightarrow> (address \<Rightarrow> nat) \<Rightarrow> world" where
  "scene st lk holder l e listed escrowed bal =
     \<lparr> nft = \<lparr> tokenIdCounter = 1, owners = (\<lambda>t. if t = 0 then holder else 0),
               tokenApprovals = (\<lambda>_. 0), operatorApprovals = (\<lambda>_ _. False),
               tokenURIs = (\<lambda>t. if t = 0 then ''ipfs://QmYw'' else []),
               ticketInfo = (\<lambda>t. if t = 0 then ticket0 st else emptyTicketInfo),
               isLocked = (\<lambda>t. t = 0 \<and> lk),
               authorizedMarketplace = (\<lambda>a. a = 100), nft_admins = (\<lambda>a. a = 1),
               nft_owner = 1, nft_paused = False \<rparr>,
       this = 100, marketplaceFee = 250,
       listings = (\<lambda>t. if t = 0 then l else emptyListing),
       escrowTransactions = (\<lambda>t. if t = 0 then e else emptyEscrow),
       admins = (\<lambda>a. a = 1), listedTokenIds = listed, escrowTokenIds = escrowed,
       owner = 1, paused = False, balances = bal,
       acceptsEther = (\<lambda>_. True), acceptsERC721 = (\<lambda>_. True) \<rparr>"

definition listing0 :: "address \<Rightarrow> uint256 \<Rightarrow> bool \<Rightarrow> uint256 \<Rightarrow> Listing" where
  "listing0 sl p a ts = \<lparr> l_tokenId = 0, seller = sl, price = p, active = a, timestamp = ts \<rparr>"

definition escrow0 :: "bool \<Rightarrow> bool \<Rightarrow> bool \<Rightarrow> bool \<Rightarrow> string \<Rightarrow> EscrowTransaction" where
  "escrow0 sc bc d c r = \<lparr> e_tokenId = 0, e_seller = 2, buyer = 3, e_price = 1000, startTime = 14,
     sellerConfirmed = sc, buyerConfirmed = bc, disputed = d, completed = c, disputeReason = r \<rparr>"

text \<open>
  The states the scenario goes through. The seller, an externally owned
  account, mints token 0 at time 11, the admin
  verifies it (\<open>verified\<close>), the seller lists it for 1000 at time 13 (\<open>listed\<close>; while the
  marketplace is paused: \<open>listed_paused\<close>), and the buyer buys it at time 14
  (\<open>in_escrow\<close>; \<open>seller_refuses\<close> is the same escrow for a seller whose account does not
  take ether, \<open>drained\<close> the escrow after the owner has called \<^verbatim>\<open>withdrawFees\<close>).
  Then either the buyer confirms (\<open>buyer_confirmed\<close>) and the seller confirms
  (\<open>settled\<close>), after which the buyer lists the ticket again for 500 (\<open>relisted\<close>); or
  the escrow is auto-released (\<open>auto_released\<close>); or the buyer raises a dispute
  (\<open>in_dispute\<close>) and the admin resolves it for the buyer (\<open>refunded\<close>).
\<close>

definition verified :: world where
  "verified = scene VERIFIED False 2 emptyListing emptyEscrow [] [] (funds 0 0 0 5000)"

definition listed :: world where
  "listed = scene VERIFIED False 2 (listing0 2 1000 True 13) emptyEscrow [0] [] (funds 0 0 0 5000)"

definition listed_paused :: world where
  "listed_paused = listed\<lparr> paused := True \<rparr>"

definition in_escrow :: world where
  "in_escrow = scene LOCKED True 3 (listing0 2 1000 False 13) (escrow0 False False False False [])
     [] [0] (funds 1000 0 0 4000)"

definition seller_refuses :: world where
  "seller_refuses = in_escrow\<lparr> acceptsEther := (\<lambda>a. a \<noteq> 2) \<rparr>"

definition drained :: world where
  "drained = scene LOCKED True 3 (listing0 2 1000 False 13) (escrow0 False False False False [])
     [] [0] (funds 0 1000 0 4000)"

definition buyer_confirmed :: world where
  "buyer_confirmed = scene LOCKED True 3 (listing0 2 1000 False 13)
     (escrow0 False True False False []) [] [0] (funds 1000 0 0 4000)"

definition settled :: world where
  "settled = scene UNLOCKED False 3 (listing0 2 1000 False 13)
     (escrow0 True True False True []) [] [] (funds 25 0 975 4000)"

definition relisted :: world where
  "relisted = scene UNLOCKED False 3 (listing0 3 500 True 17) (escrow0 True True False True [])
     [0] [] (funds 25 0 975 4000)"

definition auto_released :: world where
  "auto_released = scene UNLOCKED False 3 (listing0 2 1000 False 13)
     (escrow0 False False False True []) [] [] (funds 25 0 975 4000)"

definition in_dispute :: world where
  "in_dispute = scene DISPUTED True 3 (listing0 2 1000 False 13)
     (escrow0 False False True False ''item not received'') [] [0] (funds 1000 0 0 4000)"

definition refunded :: world where
  "refunded = scene UNLOCKED False 2 (listing0 2 1000 False 13)
     (escrow0 False False True True ''item not received'') [] [] (funds 0 0 0 5000)"

text \<open>
  \<open>burnt\<close> is \<open>in_escrow\<close> after the buyer has burnt the locked ticket.
\<close>

definition burnt :: world where
  "burnt = in_escrow\<lparr> nft := (nft in_escrow)\<lparr> owners := (\<lambda>_. 0), tokenURIs := (\<lambda>_. []) \<rparr> \<rparr>"

subsection \<open>A recipient that acts during the mint\<close>

text \<open>
  A second scenario, with the same accounts. Here the seller, account 2, is a contract
  that the owner has made an admin of the token contract, and the buyer, account 3, is a
  contract that account 2 calls. \<open>scene2\<close> is the state with counter \<open>cnt\<close>, the ticket
  record \<open>info\<close> and the URI \<open>uri\<close> stored for token 0, and the rest as in \<open>scene\<close>.
\<close>

definition scene2 ::
  "uint256 \<Rightarrow> TicketInfo \<Rightarrow> string \<Rightarrow> bool \<Rightarrow> address \<Rightarrow> Listing \<Rightarrow> EscrowTransaction
     \<Rightarrow> uint256 list \<Rightarrow> uint256 list \<Rightarrow> (address \<Rightarrow> nat) \<Rightarrow> world" where
  "scene2 cnt info uri lk holder l e lst esc bal =
     \<lparr> nft = \<lparr> tokenIdCounter = cnt, owners = (\<lambda>t. if t = 0 then holder else 0),
               tokenApprovals = (\<lambda>_. 0), operatorApprovals = (\<lambda>_ _. False),
               tokenURIs = (\<lambda>t. if t = 0 then uri else []),
               ticketInfo = (\<lambda>t. if t = 0 then info else emptyTicketInfo),
               isLocked = (\<lambda>t. t = 0 \<and> lk),
               authorizedMarketplace = (\<lambda>a. a = 100), nft_admins = (\<lambda>a. a = 1 \<or> a = 2),
               nft_owner = 1, nft_paused = False \<rparr>,
       this = 100, marketplaceFee = 250,
       listings = (\<lambda>t. if t = 0 then l else emptyListing),
       escrowTransactions = (\<lambda>t. if t = 0 then e else emptyEscrow),
       admins = (\<lambda>a. a = 1), listedTokenIds = lst, escrowTokenIds = esc,
       owner = 1, paused = False, balances = bal,
       acceptsEther = (\<lambda>_. True), acceptsERC721 = (\<lambda>_. True) \<rparr>"

definition unwritten :: "TicketStatus \<Rightarrow> TicketInfo" where
  "unwritten st = emptyTicketInfo\<lparr> status := st \<rparr>"

definition escrow1 :: "bool \<Rightarrow> bool \<Rightarrow> bool \<Rightarrow> EscrowTransaction" where
  "escrow1 sc bc c = \<lparr> e_tokenId = 0, e_seller = 2, buyer = 3, e_price = 1000, startTime = 11,
     sellerConfirmed = sc, buyerConfirmed = bc, disputed = False, completed = c,
     disputeReason = [] \<rparr>"

definition escrow2 :: EscrowTransaction where
  "escrow2 = \<lparr> e_tokenId = 0, e_seller = 3, buyer = 2, e_price = 500, startTime = 14,
     sellerConfirmed = False, buyerConfirmed = False, disputed = False, completed = False,
     disputeReason = [] \<rparr>"

text \<open>
  The states of the second scenario. Before the mint nothing exists (\<open>before_mint\<close>).
  At time 11 a ticket is minted to account 2. When \<^verbatim>\<open>_safeMint\<close> calls account 2, token
  0 is its own and the ticket record is still unwritten (\<open>minting\<close>). In that call,
  account 2 verifies the ticket (\<open>hook_verified\<close>) and lists it for 1000
  (\<open>hook_listed\<close>), account 3 buys it (\<open>hook_in_escrow\<close>) and confirms
  (\<open>hook_buyer_confirmed\<close>), and account 2 confirms (\<open>hook_settled\<close>). A mint whose
  recipient returns after the purchase ends in \<open>minted_locked\<close>; one whose recipient
  returns after the settlement ends in \<open>minted_sold\<close>. After that the admin verifies the
  ticket (\<open>verified_again\<close>), account 3 lists it for 500 (\<open>listed_again\<close>), and account 2
  buys it (\<open>bought_again\<close>).
\<close>

definition mint_hook :: "call list" where
  "mint_hook = [VerifyTicket 2 0, ListTicket 2 0 1000, PurchaseTicket 3 1000 0,
                ConfirmTransaction 3 0, ConfirmTransaction 2 0]"

definition mint0 :: "call list \<Rightarrow> call" where
  "mint0 hook = MintTicket 2 ''Rock Concert 2024'' ''2024-12-31'' ''Madison Square Garden''
                  ''Section A, Row 5, Seat 10'' 1000 ''QmYw'' ''ipfs://QmYw'' hook"

definition before_mint :: world where
  "before_mint = scene2 0 emptyTicketInfo [] False 0 emptyListing emptyEscrow [] []
     (funds 0 0 0 5000)"

definition minting :: world where
  "minting = scene2 1 emptyTicketInfo [] False 2 emptyListing emptyEscrow [] []
     (funds 0 0 0 5000)"

definition hook_verified :: world where
  "hook_verified = scene2 1 (unwritten VERIFIED) [] False 2 emptyListing emptyEscrow [] []
     (funds 0 0 0 5000)"

definition hook_listed :: world where
  "hook_listed = scene2 1 (unwritten VERIFIED) [] False 2 (listing0 2 1000 True 11) emptyEscrow
     [0] [] (funds 0 0 0 5000)"

definition hook_in_escrow :: world where
  "hook_in_escrow = scene2 1 (unwritten LOCKED) [] True 3 (listing0 2 1000 False 11)
     (escrow1 False False False) [] [0] (funds 1000 0 0 4000)"

definition hook_buyer_confirmed :: world where
  "hook_buyer_confirmed = scene2 1 (unwritten LOCKED) [] True 3 (listing0 2 1000 False 11)
     (escrow1 False True False) [] [0] (funds 1000 0 0 4000)"

definition hook_settled :: world where
  "hook_settled = scene2 1 (unwritten UNLOCKED) [] False 3 (listing0 2 1000 False 11)
     (escrow1 True True True) [] [] (funds 25 0 975 4000)"


definition minted_sold :: world where
  "minted_sold = scene2 1 (ticket0 PENDING) ''ipfs://QmYw'' False 3 (listing0 2 1000 False 11)
     (escrow1 True True True) [] [] (funds 25 0 975 4000)"

definition verified_again :: world where
  "verified_again = scene2 1 (ticket0 VERIFIED) ''ipfs://QmYw'' False 3 (listing0 2 1000 False 11)
     (escrow1 True True True) [] [] (funds 25 0 975 4000)"

definition listed_again :: world where
  "listed_again = scene2 1 (ticket0 VERIFIED) ''ipfs://QmYw'' False 3 (listing0 3 500 True 13)
     (escrow1 True True True) [0] [] (funds 25 0 975 4000)"

definition bought_again :: world where
  "bought_again = scene2 1 (ticket0 LOCKED) ''ipfs://QmYw'' True 2 (listing0 3 500 False 13)
     escrow2 [] [0] (funds 525 0 475 4000)"

section \<open>Lemmas about the single operations\<close>

text \<open>
  What a successful call tells: the new state, and the checks that were passed. The
  lemmas named \<open>_nft\<close> say which calls into the token contract a function of the
  marketplace makes.
\<close>

lemma transfer_internal_Inr:
  "transfer_internal n from to tokenId = Inr n' \<Longrightarrow>
     n' = n\<lparr> tokenApprovals := (tokenApprovals n)(tokenId := 0), owners := (owners n)(tokenId := to) \<rparr>
     \<and> owners n tokenId = from \<and> from \<noteq> 0 \<and> to \<noteq> 0 \<and> \<not> nft_paused n"
  by (auto simp: transfer_internal_def ownerOf_def split: if_splits sum.splits)

lemma lockTicket_Inr:
  "lockTicket n sender tokenId = Inr n' \<Longrightarrow>
     n' = set_status (n\<lparr> isLocked := (isLocked n)(tokenId := True) \<rparr>) tokenId LOCKED
     \<and> authorizedMarketplace n sender \<and> exists_token n tokenId
     \<and> status (ticketInfo n tokenId) = VERIFIED"
  by (auto simp: lockTicket_def split: if_splits)

lemma unlockTicket_Inr:
  "unlockTicket n sender tokenId = Inr n' \<Longrightarrow>
     n' = set_status (n\<lparr> isLocked := (isLocked n)(tokenId := False) \<rparr>) tokenId UNLOCKED
     \<and> authorizedMarketplace n sender \<and> exists_token n tokenId \<and> isLocked n tokenId"
  by (auto simp: unlockTicket_def split: if_splits)


lemma transfer_ether_Inr:
  "transfer_ether s to amount = Inr s' \<Longrightarrow>
     s' = s\<lparr> balances := (balances s)(this s := balances s (this s) - amount,
                                      to := balances s to + amount) \<rparr>
     \<and> amount \<le> balances s (this s) \<and> to \<noteq> this s \<and> acceptsEther s to"
  by (auto simp: transfer_ether_def split: if_splits)

lemma releaseFundsToSeller_Inr:
  "releaseFundsToSeller s tokenId = Inr s' \<Longrightarrow>
     settlement_fee s (e_price (escrowTransactions s tokenId)) \<le> e_price (escrowTransactions s tokenId)
     \<and> transfer_ether s (e_seller (escrowTransactions s tokenId))
          (e_price (escrowTransactions s tokenId)
             - settlement_fee s (e_price (escrowTransactions s tokenId))) = Inr s'"
  by (auto simp: releaseFundsToSeller_def settlement_fee_def Let_def split: if_splits)

lemma completeEscrow_Inr:
  "completeEscrow s tokenId = Inr s' \<Longrightarrow>
     \<exists>s1 n'. releaseFundsToSeller s tokenId = Inr s1
        \<and> unlockTicket (nft s1) (this s1) tokenId = Inr n'
        \<and> s' = removeFromEscrowTokens (set_completed (s1\<lparr> nft := n' \<rparr>) tokenId) tokenId"
  by (auto simp: completeEscrow_def split: sum.splits)

lemma completeEscrow_nft:
  assumes "completeEscrow s tokenId = Inr s'"
  shows "unlockTicket (nft s) (this s) tokenId = Inr (nft s')"
proof -
  from completeEscrow_Inr [OF assms] obtain s1 n' where
    r: "releaseFundsToSeller s tokenId = Inr s1" and
    u: "unlockTicket (nft s1) (this s1) tokenId = Inr n'" and
    s': "s' = removeFromEscrowTokens (set_completed (s1\<lparr> nft := n' \<rparr>) tokenId) tokenId"
    by blast
  from releaseFundsToSeller_Inr [OF r] transfer_ether_Inr have "nft s1 = nft s" "this s1 = this s"
    by fastforce+
  with u s' show ?thesis
    by (simp add: removeFromEscrowTokens_def set_completed_def)
qed

lemma owners_set_status [simp]: "owners (set_status n t st) = owners n"
  by (simp add: set_status_def)

lemma isLocked_set_status [simp]: "isLocked (set_status n t st) = isLocked n"
  by (simp add: set_status_def)

lemma status_set_status [simp]:
  "status (ticketInfo (set_status n t st) t') = (if t' = t then st else status (ticketInfo n t'))"
  by (simp add: set_status_def)

lemma on_nft_Inr: "on_nft s r = Inr s' \<Longrightarrow> \<exists>n'. r = Inr n' \<and> s' = s\<lparr> nft := n' \<rparr>"
  by (auto simp: on_nft_def split: sum.splits)

lemma receive_value_Inr:
  "receive_value s sender val = Inr s' \<Longrightarrow>
     val \<le> balances s sender \<and> nft s' = nft s \<and> this s' = this s \<and> paused s' = paused s
     \<and> listings s' = listings s \<and> escrowTransactions s' = escrowTransactions s
     \<and> listedTokenIds s' = listedTokenIds s \<and> escrowTokenIds s' = escrowTokenIds s
     \<and> marketplaceFee s' = marketplaceFee s \<and> admins s' = admins s \<and> owner s' = owner s
     \<and> acceptsEther s' = acceptsEther s \<and> acceptsERC721 s' = acceptsERC721 s"
  by (auto simp: receive_value_def split: if_splits)

lemma listTicket_nft: "listTicket s now sender tokenId p = Inr s' \<Longrightarrow> nft s' = nft s"
  by (auto simp: listTicket_def split: if_splits sum.splits)

lemma unlistTicket_nft: "unlistTicket s sender tokenId = Inr s' \<Longrightarrow> nft s' = nft s"
  by (auto simp: unlistTicket_def removeFromListedTokens_def set_inactive_def split: if_splits)

lemma purchaseTicket_nft:
  "purchaseTicket s now sender val tokenId = Inr s' \<Longrightarrow>
     \<exists>n1. lockTicket (nft s) (this s) tokenId = Inr n1
       \<and> marketplaceTransfer n1 (this s) (seller (listings s tokenId)) sender tokenId = Inr (nft s')"
  by (auto simp: purchaseTicket_def Let_def removeFromListedTokens_def set_inactive_def
      dest!: receive_value_Inr split: if_splits sum.splits)

lemma confirmTransaction_nft:
  "confirmTransaction s sender tokenId = Inr s' \<Longrightarrow>
     nft s' = nft s \<or> unlockTicket (nft s) (this s) tokenId = Inr (nft s')"
  by (auto simp: confirmTransaction_def Let_def set_escrow_def
      dest!: completeEscrow_nft split: if_splits sum.splits)

lemma autoReleaseEscrow_nft:
  "autoReleaseEscrow s now tokenId = Inr s' \<Longrightarrow>
     unlockTicket (nft s) (this s) tokenId = Inr (nft s')"
  by (auto simp: autoReleaseEscrow_def Let_def dest!: completeEscrow_nft split: if_splits)

lemma raiseDispute_nft:
  "raiseDispute s sender tokenId reason = Inr s' \<Longrightarrow>
     markAsDisputed (nft s) (this s) tokenId = Inr (nft s')"
  by (auto simp: raiseDispute_def Let_def set_escrow_def split: if_splits sum.splits)

lemma releaseFundsToSeller_frame:
  "releaseFundsToSeller s tokenId = Inr s' \<Longrightarrow> nft s' = nft s \<and> this s' = this s"
  by (auto dest!: releaseFundsToSeller_Inr transfer_ether_Inr)

lemma refundBuyer_frame:
  "refundBuyer s tokenId = Inr s' \<Longrightarrow> nft s' = nft s \<and> this s' = this s"
  by (auto simp: refundBuyer_def Let_def dest!: transfer_ether_Inr)

lemma resolveDispute_nft:
  "resolveDispute s sender tokenId sellerWins = Inr s' \<Longrightarrow>
     (if sellerWins then unlockTicket (nft s) (this s) tokenId = Inr (nft s')
      else \<exists>n1. marketplaceTransfer (nft s) (this s) (buyer (escrowTransactions s tokenId))
                    (e_seller (escrowTransactions s tokenId)) tokenId = Inr n1
             \<and> unlockTicket n1 (this s) tokenId = Inr (nft s'))"
  by (auto simp: resolveDispute_def Let_def removeFromEscrowTokens_def set_completed_def
      dest!: releaseFundsToSeller_frame refundBuyer_frame split: if_splits sum.splits)

lemma emergencyRecoverToken_nft:
  "emergencyRecoverToken s sender tokenId = Inr s' \<Longrightarrow>
     safeTransferFrom (nft s) (acceptsERC721 s) (this s) (this s) (owner s) tokenId = Inr (nft s')"
  by (auto simp: emergencyRecoverToken_def split: if_splits sum.splits)

lemma admin_ops_nft:
  "updateMarketplaceFee s sender f = Inr s' \<Longrightarrow> nft s' = nft s"
  "addAdmin s sender a = Inr s' \<Longrightarrow> nft s' = nft s"
  "removeAdmin s sender a = Inr s' \<Longrightarrow> nft s' = nft s"
  "withdrawFees s sender = Inr s' \<Longrightarrow> nft s' = nft s"
  "pause s sender = Inr s' \<Longrightarrow> nft s' = nft s"
  "unpause s sender = Inr s' \<Longrightarrow> nft s' = nft s"
  "transferOwnership s sender a = Inr s' \<Longrightarrow> nft s' = nft s"
  "renounceOwnership s sender = Inr s' \<Longrightarrow> nft s' = nft s"
  by (auto simp: updateMarketplaceFee_def addAdmin_def removeAdmin_def withdrawFees_def
      pause_def unpause_def transferOwnership_def renounceOwnership_def Let_def
      dest!: transfer_ether_Inr split: if_splits)

section \<open>Invariants of the token contract\<close>

text \<open>
  A property is kept by every transaction when it is kept by every transaction other than
  a mint, by the first phase of a mint, and by the second phase of a mint; what the
  recipient of a mint does in between is a sequence of transactions again. \<open>M\<close> are the
  ids that the transaction may mint.
\<close>

lemma exec_preserves:
  assumes atomic: "\<And>s now c s'. \<not> is_mint c \<Longrightarrow> exec s now c = Inr s' \<Longrightarrow> P s \<Longrightarrow> P s'"
    and starts: "\<And>s to n1 tokenId. mintTicket_begin (nft s) to = Inr (n1, tokenId) \<Longrightarrow> P s
                  \<Longrightarrow> P (s\<lparr> nft := n1 \<rparr>)"
    and ends: "\<And>s acc now to tokenId a b c d p h u n'. tokenId \<in> M
                  \<Longrightarrow> mintTicket_finish (nft s) acc now to tokenId a b c d p h u = Inr n'
                  \<Longrightarrow> P s \<Longrightarrow> P (s\<lparr> nft := n' \<rparr>)"
  shows "exec s now c = Inr s' \<Longrightarrow> set (minted_ids s now c) \<subseteq> M \<Longrightarrow> P s \<Longrightarrow> P s'"
    and "exec_hook s now cs = Inr s' \<Longrightarrow> set (hook_minted_ids s now cs) \<subseteq> M \<Longrightarrow> P s \<Longrightarrow> P s'"
proof (induction s now c and s now cs arbitrary: s' and s' rule: exec_exec_hook.induct)
  case (1 s now to evName evDate ven seat origPrice proofHash uri hook)
  from "1.prems"(1) obtain n1 tokenId s2 n' where
    b: "mintTicket_begin (nft s) to = Inr (n1, tokenId)"
    and h: "exec_hook (s\<lparr> nft := n1 \<rparr>) now hook = Inr s2"
    and f: "mintTicket_finish (nft s2) (acceptsERC721 s2) now to tokenId evName evDate ven seat
              origPrice proofHash uri = Inr n'"
    and s': "s' = s2\<lparr> nft := n' \<rparr>"
    by (auto split: sum.splits prod.splits dest!: on_nft_Inr)
  from "1.prems"(2) b have m: "set (hook_minted_ids (s\<lparr> nft := n1 \<rparr>) now hook) \<subseteq> M"
    and t: "tokenId \<in> M"
    by simp_all
  from starts [OF b "1.prems"(3)] have "P (s\<lparr> nft := n1 \<rparr>)" .
  with "1.IH" [OF b refl h m] have "P s2" .
  with ends [OF t f] s' show ?case by simp
next
  case (35 s now)
  then show ?case by simp
next
  case (36 s now c cs)
  from "36.prems"(1) obtain s1 where
    e: "exec s now c = Inr s1" and h: "exec_hook s1 now cs = Inr s'"
    by (auto split: sum.splits)
  from "36.prems"(2) e have m1: "set (minted_ids s now c) \<subseteq> M"
    and m2: "set (hook_minted_ids s1 now cs) \<subseteq> M"
    by simp_all
  from "36.IH"(1) [OF e m1 "36.prems"(3)] have "P s1" .
  with "36.IH"(2) [OF e h m2] show ?case .
qed (erule atomic [rotated], assumption, simp)+

text \<open>
  A transaction other than a mint changes the token contract by a sequence of its
  external functions.
\<close>

lemma nft_step_star: "nft_step n n' \<Longrightarrow> nft_step\<^sup>*\<^sup>* n n'"
  by (rule r_into_rtranclp)

lemma nft_step_star2: "nft_step n n1 \<Longrightarrow> nft_step n1 n' \<Longrightarrow> nft_step\<^sup>*\<^sup>* n n'"
  by (meson r_into_rtranclp rtranclp.rtrancl_into_rtrancl)

lemma exec_nft_steps:
  assumes "exec s now c = Inr s'" and "\<not> is_mint c"
  shows "nft_step\<^sup>*\<^sup>* (nft s) (nft s')"
proof (cases c)
  case (MintTicket to a b c' d p h u hook)
  with assms(2) show ?thesis by simp
next
  case (PurchaseTicket sender val tokenId)
  with assms purchaseTicket_nft [of s now sender val tokenId s'] show ?thesis
    by (auto intro: nft_step_star2 nft_step.lock nft_step.privileged)
next
  case (ConfirmTransaction sender tokenId)
  with assms confirmTransaction_nft [of s sender tokenId s'] show ?thesis
    by (auto intro: nft_step_star nft_step.unlock)
next
  case (AutoReleaseEscrow tokenId)
  with assms autoReleaseEscrow_nft [of s now tokenId s'] show ?thesis
    by (auto intro: nft_step_star nft_step.unlock)
next
  case (RaiseDispute sender tokenId reason)
  with assms raiseDispute_nft [of s sender tokenId reason s'] show ?thesis
    by (auto intro: nft_step_star nft_step.dispute)
next
  case (ResolveDispute sender tokenId sellerWins)
  with assms resolveDispute_nft [of s sender tokenId sellerWins s'] show ?thesis
    by (cases sellerWins) (auto intro: nft_step_star nft_step_star2 nft_step.unlock nft_step.privileged)
next
  case (EmergencyRecoverToken sender tokenId)
  with assms emergencyRecoverToken_nft [of s sender tokenId s'] show ?thesis
    by (auto intro: nft_step_star nft_step.safe_transfer)
qed (use assms in \<open>auto dest!: on_nft_Inr listTicket_nft unlistTicket_nft admin_ops_nft
       elim: nft_step.intros [THEN nft_step_star]\<close>)

lemmas nft_defs = mintTicket_begin_def mintTicket_finish_def verifyTicket_def lockTicket_def
  unlockTicket_def markAsDisputed_def nft_addAdmin_def nft_removeAdmin_def
  authorizeMarketplace_def transferFrom_def safeTransferFrom_def marketplaceTransfer_def
  nft_pause_def nft_unpause_def approve_def setApprovalForAll_def burn_def
  nft_transferOwnership_def nft_renounceOwnership_def transfer_internal_def
  isApprovedOrOwner_def ownerOf_def exists_token_def set_status_def



lemma nft_step_sold:
  "nft_step n n' \<Longrightarrow> sold n t \<Longrightarrow> sold n' t"
  by (erule nft_step.cases)
     (auto simp: sold_def nft_defs Let_def split: if_splits sum.splits)



lemma nft_steps_sold:
  "nft_step\<^sup>*\<^sup>* n n' \<Longrightarrow> sold n t \<Longrightarrow> sold n' t"
  by (induction rule: rtranclp_induct) (auto intro: nft_step_sold)

text \<open>The two phases of a mint.\<close>

lemma mintTicket_begin_Inr:
  "mintTicket_begin n to = Inr (n1, tokenId) \<Longrightarrow>
     tokenId = tokenIdCounter n \<and> ticketInfo n1 = ticketInfo n \<and> isLocked n1 = isLocked n"
  by (auto simp: mintTicket_begin_def Let_def split: if_splits)

lemma mintTicket_finish_Inr:
  "mintTicket_finish n acc now to tokenId a b c d p h u = Inr n' \<Longrightarrow>
     isLocked n' = isLocked n \<and> status (ticketInfo n' tokenId) = PENDING
     \<and> (\<forall>t. t \<noteq> tokenId \<longrightarrow> ticketInfo n' t = ticketInfo n t)"
  by (auto simp: mintTicket_finish_def split: if_splits)



lemma exec_sold:
  assumes "exec s now c = Inr s'" and "t \<notin> set (minted_ids s now c)" and "sold (nft s) t"
  shows "sold (nft s') t"
proof (rule exec_preserves(1) [where P = "\<lambda>s. sold (nft s) t" and M = "- {t}",
      OF _ _ _ assms(1) _ assms(3)])
  fix s now c s'
  assume "\<not> is_mint c" "exec s now c = Inr s'" "sold (nft s) t"
  then show "sold (nft s') t"
    using exec_nft_steps nft_steps_sold by blast
next
  fix s :: world and to n1 tokenId
  assume "mintTicket_begin (nft s) to = Inr (n1, tokenId)" "sold (nft s) t"
  then show "sold (nft (s\<lparr> nft := n1 \<rparr>)) t"
    by (auto simp: sold_def dest!: mintTicket_begin_Inr)
next
  fix s :: world and acc now to tokenId a b c d p h u n'
  assume "tokenId \<in> - {t}"
    "mintTicket_finish (nft s) acc now to tokenId a b c d p h u = Inr n'" "sold (nft s) t"
  then show "sold (nft (s\<lparr> nft := n' \<rparr>)) t"
    by (auto simp: sold_def dest!: mintTicket_finish_Inr)
next
  from assms(2) show "set (minted_ids s now c) \<subseteq> - {t}" by auto
qed


lemma future_without_mint_sold:
  "future_without_mint t s s' \<Longrightarrow> sold (nft s) t \<Longrightarrow> sold (nft s') t"
proof (induction rule: future_without_mint.induct)
  case (now_ t s)
  then show ?case by simp
next
  case (later t s s' now c s'')
  then show ?case
    using exec_sold by blast
qed

section \<open>The scenario, step by step\<close>

text \<open>Each step of the scenario, evaluated on the state before it.\<close>

lemmas scene_defs = scene_def funds_def ticket0_def listing0_def escrow0_def emptyListing_def
  emptyEscrow_def emptyTicketInfo_def

lemmas scene2_defs = scene2_def funds_def ticket0_def unwritten_def listing0_def escrow1_def
  escrow2_def emptyListing_def emptyEscrow_def emptyTicketInfo_def

lemmas mkt_defs = listTicket_def unlistTicket_def purchaseTicket_def confirmTransaction_def
  autoReleaseEscrow_def raiseDispute_def resolveDispute_def updateMarketplaceFee_def
  addAdmin_def removeAdmin_def withdrawFees_def pause_def unpause_def emergencyRecoverToken_def
  completeEscrow_def releaseFundsToSeller_def refundBuyer_def transfer_ether_def
  receive_value_def isInEscrow_def removeFromListedTokens_def removeFromEscrowTokens_def
  set_completed_def set_inactive_def set_escrow_def onlyAdmin_def validTokenId_def
  totalSupply_def getTicketInfo_def on_nft_def transferOwnership_def renounceOwnership_def

lemma removeFrom_loop_single [simp]: "removeFrom_loop t 0 [t] = []"
  by (simp add: removeFrom_loop.simps)

lemma run_setup:
  "run (mkt_constructor (nft_constructor 1) 100 1 (funds 0 0 0 5000) (\<lambda>_. True) (\<lambda>_. True))
     [(10, AuthorizeMarketplace 1 100),
      (11, MintTicket 2 ''Rock Concert 2024'' ''2024-12-31'' ''Madison Square Garden''
             ''Section A, Row 5, Seat 10'' 1000 ''QmYw'' ''ipfs://QmYw'' []),
      (12, VerifyTicket 1 0)]
   = Inr (scene VERIFIED False 2 emptyListing emptyEscrow [] [] (funds 0 0 0 5000))"
  by (simp add: mkt_constructor_def nft_constructor_def nft_defs mkt_defs scene_defs nft_onlyAdmin_def fun_eq_iff)

lemma step_list:
  "exec (scene VERIFIED False 2 emptyListing emptyEscrow [] [] (funds 0 0 0 5000)) 13 (ListTicket 2 0 1000)
   = Inr (scene VERIFIED False 2 (listing0 2 1000 True 13) emptyEscrow [0] [] (funds 0 0 0 5000))"
  by (simp add: nft_defs mkt_defs scene_defs fun_eq_iff)

lemma step_purchase:
  "exec (scene VERIFIED False 2 (listing0 2 1000 True 13) emptyEscrow [0] [] (funds 0 0 0 5000)) 14
     (PurchaseTicket 3 1000 0) = Inr in_escrow"
  by (simp add: in_escrow_def nft_defs mkt_defs scene_defs Let_def fun_eq_iff)

lemma step_dispute:
  "exec in_escrow 15 (RaiseDispute 3 0 ''item not received'')
   = Inr (scene DISPUTED True 3 (listing0 2 1000 False 13)
            (escrow0 False False True False ''item not received'') [] [0] (funds 1000 0 0 4000))"
  by (simp add: in_escrow_def nft_defs mkt_defs scene_defs Let_def fun_eq_iff)

lemma step_confirm_buyer:
  "exec in_escrow 15 (ConfirmTransaction 3 0)
   = Inr (scene LOCKED True 3 (listing0 2 1000 False 13)
            (escrow0 False True False False []) [] [0] (funds 1000 0 0 4000))"
  by (simp add: in_escrow_def nft_defs mkt_defs scene_defs Let_def fun_eq_iff)

lemma step_confirm_seller:
  "exec (scene LOCKED True 3 (listing0 2 1000 False 13)
            (escrow0 False True False False []) [] [0] (funds 1000 0 0 4000)) 16 (ConfirmTransaction 2 0)
   = Inr (scene UNLOCKED False 3 (listing0 2 1000 False 13)
            (escrow0 True True False True []) [] [] (funds 25 0 975 4000))"
  by (simp add: nft_defs mkt_defs scene_defs MAX_UINT256_def Let_def fun_eq_iff)

section \<open>The swap-and-pop removal\<close>

text \<open>On an array without repetitions the loop removes the token and nothing else.\<close>

lemma swap_pop_distinct:
  assumes "i < length xs" and "distinct xs"
  shows "distinct (butlast (xs[i := xs ! (length xs - 1)]))
       \<and> set (butlast (xs[i := xs ! (length xs - 1)])) = set xs - {xs ! i}"
proof -
  from assms obtain ys l where xs: "xs = ys @ [l]"
    by (metis length_0_conv not_less_zero rev_exhaust)
  show ?thesis
  proof (cases "i < length ys")
    case True
    with assms(2) have "l \<noteq> ys ! i" by (auto simp: xs)
    with True assms(2) show ?thesis
      by (auto simp: xs nth_append list_update_append butlast_append distinct_list_update
          set_update_distinct)
  next
    case False
    with assms have "i = length ys" by (simp add: xs)
    with assms(2) show ?thesis by (auto simp: xs)
  qed
qed

lemma removeFrom_loop_distinct_gen:
  "distinct xs \<Longrightarrow>
     distinct (removeFrom_loop t i xs)
     \<and> set (removeFrom_loop t i xs) = (if t \<in> set (drop i xs) then set xs - {t} else set xs)"
proof (induction t i xs rule: removeFrom_loop.induct)
  case (1 t i xs)
  show ?case
  proof (cases "i < length xs")
    case False
    then show ?thesis using "1.prems" by (simp add: removeFrom_loop.simps)
  next
    case lt: True
    then have d: "drop i xs = xs ! i # drop (Suc i) xs"
      by (simp add: Cons_nth_drop_Suc)
    show ?thesis
    proof (cases "xs ! i = t")
      case True
      with lt swap_pop_distinct [OF lt "1.prems"] d show ?thesis
        by (simp add: removeFrom_loop.simps [of t i xs])
    next
      case False
      with lt "1.IH" "1.prems" d show ?thesis
        by (simp add: removeFrom_loop.simps [of t i xs])
    qed
  qed
qed

lemma removeFrom_loop_distinct:
  "distinct xs \<Longrightarrow>
     distinct (removeFrom_loop t 0 xs) \<and> set (removeFrom_loop t 0 xs) = set xs - {t}"
  using removeFrom_loop_distinct_gen [of xs t 0] by auto

section \<open>Settlement and purchase in detail\<close>

lemma completeEscrow_succeeds_iff:
  "(\<exists>s'. completeEscrow s t = Inr s') = can_settle s t"
  by (auto simp: completeEscrow_def releaseFundsToSeller_def transfer_ether_def unlockTicket_def
      can_settle_def settlement_fee_def Let_def split: sum.splits if_splits)

lemma completeEscrow_effect:
  assumes "completeEscrow s t = Inr s'"
  shows "escrowTransactions s' = (escrowTransactions s)(t := (escrowTransactions s t)\<lparr> completed := True \<rparr>)"
    and "escrowTokenIds s' = removeFrom_loop t 0 (escrowTokenIds s)"
    and "balances s' = (balances s)
           (this s := balances s (this s)
               - (e_price (escrowTransactions s t) - settlement_fee s (e_price (escrowTransactions s t))),
            e_seller (escrowTransactions s t) := balances s (e_seller (escrowTransactions s t))
               + (e_price (escrowTransactions s t) - settlement_fee s (e_price (escrowTransactions s t))))"
    and "nft s' = set_status ((nft s)\<lparr> isLocked := (isLocked (nft s))(t := False) \<rparr>) t UNLOCKED"
    and "this s' = this s" and "marketplaceFee s' = marketplaceFee s"
    and "listings s' = listings s" and "listedTokenIds s' = listedTokenIds s"
    and "can_settle s t"
  using assms completeEscrow_succeeds_iff [of s t]
  by (auto simp: completeEscrow_def removeFromEscrowTokens_def set_completed_def
      dest!: releaseFundsToSeller_Inr transfer_ether_Inr unlockTicket_Inr split: sum.splits)

lemma tokenIdCounter_set_status [simp]: "tokenIdCounter (set_status n t st) = tokenIdCounter n"
  by (simp add: set_status_def)

lemma completeEscrow_completed:
  "completeEscrow s t = Inr s' \<Longrightarrow>
     completed (escrowTransactions s' t) \<and> e_price (escrowTransactions s' t) = e_price (escrowTransactions s t)
     \<and> validTokenId s' t = validTokenId s t"
  by (frule completeEscrow_effect(1), frule completeEscrow_effect(4))
     (simp add: validTokenId_def totalSupply_def)

lemma step_autoRelease:
  "autoReleaseEscrow in_escrow 604814 0 = Inr auto_released"
  by (simp add: in_escrow_def auto_released_def nft_defs mkt_defs scene_defs MAX_UINT256_def
      CONFIRMATION_PERIOD_def Let_def fun_eq_iff)

section \<open>The listed and in-escrow indices\<close>

text \<open>Every transaction keeps the two index arrays in step with listings and escrows.\<close>

lemma index_consistent_nft [simp]: "index_consistent (s\<lparr> nft := n \<rparr>) = index_consistent s"
  by (simp add: index_consistent_def isInEscrow_def)

lemma index_consistent_balances [simp]:
  "index_consistent (s\<lparr> balances := b \<rparr>) = index_consistent s"
  by (simp add: index_consistent_def isInEscrow_def)

lemma index_listTicket:
  "index_consistent s \<Longrightarrow> listTicket s now sender t p = Inr s' \<Longrightarrow> index_consistent s'"
  by (auto simp: listTicket_def index_consistent_def isInEscrow_def split: if_splits sum.splits)

lemma index_unlistTicket:
  "index_consistent s \<Longrightarrow> unlistTicket s sender t = Inr s' \<Longrightarrow> index_consistent s'"
  by (auto simp: unlistTicket_def index_consistent_def isInEscrow_def removeFromListedTokens_def
      set_inactive_def removeFrom_loop_distinct split: if_splits)

lemma index_completed:
  "index_consistent s \<Longrightarrow>
     index_consistent (removeFromEscrowTokens (set_completed s t) t)"
  by (auto simp: index_consistent_def isInEscrow_def removeFromEscrowTokens_def
      set_completed_def removeFrom_loop_distinct)

lemma index_set_escrow:
  "index_consistent s \<Longrightarrow> e_price e = e_price (escrowTransactions s t)
     \<Longrightarrow> completed e = completed (escrowTransactions s t)
     \<Longrightarrow> index_consistent (set_escrow s t e)"
  by (auto simp: index_consistent_def isInEscrow_def set_escrow_def)

lemma index_completeEscrow:
  "index_consistent s \<Longrightarrow> completeEscrow s t = Inr s' \<Longrightarrow> index_consistent s'"
  by (auto simp: completeEscrow_def dest!: releaseFundsToSeller_Inr transfer_ether_Inr
      intro!: index_completed split: sum.splits)

lemma index_purchaseTicket:
  "index_consistent s \<Longrightarrow> purchaseTicket s now sender val t = Inr s' \<Longrightarrow> index_consistent s'"
  by (auto simp: purchaseTicket_def receive_value_def Let_def index_consistent_def isInEscrow_def
      removeFromListedTokens_def set_inactive_def removeFrom_loop_distinct
      split: if_splits sum.splits)

lemma index_confirmTransaction:
  "index_consistent s \<Longrightarrow> confirmTransaction s sender t = Inr s' \<Longrightarrow> index_consistent s'"
  by (auto simp: confirmTransaction_def Let_def split: if_splits sum.splits
      intro!: index_set_escrow dest: index_completeEscrow [rotated])

lemma index_autoReleaseEscrow:
  "index_consistent s \<Longrightarrow> autoReleaseEscrow s now t = Inr s' \<Longrightarrow> index_consistent s'"
  by (auto simp: autoReleaseEscrow_def Let_def split: if_splits dest: index_completeEscrow)

lemma index_raiseDispute:
  "index_consistent s \<Longrightarrow> raiseDispute s sender t r = Inr s' \<Longrightarrow> index_consistent s'"
  by (auto simp: raiseDispute_def Let_def split: if_splits sum.splits intro!: index_set_escrow)

lemma index_resolveDispute:
  "index_consistent s \<Longrightarrow> resolveDispute s sender t w = Inr s' \<Longrightarrow> index_consistent s'"
  by (auto simp: resolveDispute_def refundBuyer_def Let_def split: if_splits sum.splits
      dest!: releaseFundsToSeller_Inr transfer_ether_Inr intro!: index_completed)

lemma index_admin_ops:
  "index_consistent s \<Longrightarrow> updateMarketplaceFee s sender f = Inr s' \<Longrightarrow> index_consistent s'"
  "index_consistent s \<Longrightarrow> addAdmin s sender a = Inr s' \<Longrightarrow> index_consistent s'"
  "index_consistent s \<Longrightarrow> removeAdmin s sender a = Inr s' \<Longrightarrow> index_consistent s'"
  "index_consistent s \<Longrightarrow> withdrawFees s sender = Inr s' \<Longrightarrow> index_consistent s'"
  "index_consistent s \<Longrightarrow> pause s sender = Inr s' \<Longrightarrow> index_consistent s'"
  "index_consistent s \<Longrightarrow> unpause s sender = Inr s' \<Longrightarrow> index_consistent s'"
  "index_consistent s \<Longrightarrow> emergencyRecoverToken s sender t = Inr s' \<Longrightarrow> index_consistent s'"
  "index_consistent s \<Longrightarrow> transferOwnership s sender a = Inr s' \<Longrightarrow> index_consistent s'"
  "index_consistent s \<Longrightarrow> renounceOwnership s sender = Inr s' \<Longrightarrow> index_consistent s'"
  by (auto simp: updateMarketplaceFee_def addAdmin_def removeAdmin_def withdrawFees_def
      pause_def unpause_def emergencyRecoverToken_def transferOwnership_def
      renounceOwnership_def Let_def index_consistent_def isInEscrow_def
      dest!: transfer_ether_Inr split: if_splits sum.splits)

lemma atomic_index_consistent:
  assumes "index_consistent s" and "exec s now c = Inr s'" and "\<not> is_mint c"
  shows "index_consistent s'"
  using assms
  by (cases c)
     (auto dest!: on_nft_Inr
        dest: index_listTicket index_unlistTicket index_purchaseTicket index_confirmTransaction
          index_autoReleaseEscrow index_raiseDispute index_resolveDispute index_admin_ops)

lemma exec_index_consistent:
  assumes "index_consistent s" and "exec s now c = Inr s'"
  shows "index_consistent s'"
  by (rule exec_preserves(1) [where P = index_consistent and M = UNIV, OF _ _ _ assms(2) _ assms(1)])
     (auto intro: atomic_index_consistent)

lemma reachable_index_consistent: "reachable s \<Longrightarrow> index_consistent s"
proof (induction rule: reachable.induct)
  case (deployed d1 self d2 bal accE acc721)
  show ?case
    by (simp add: index_consistent_def mkt_constructor_def isInEscrow_def emptyEscrow_def
        emptyListing_def)
next
  case (transaction s now c s')
  then show ?case by (blast intro: exec_index_consistent)
qed

section \<open>The scenario is reachable\<close>

lemma run_reachable: "reachable s \<Longrightarrow> run s cs = Inr s' \<Longrightarrow> reachable s'"
proof (induction cs arbitrary: s)
  case Nil
  then show ?case by simp
next
  case (Cons a cs)
  obtain now c where a: "a = (now, c)" by (cases a)
  from Cons.prems(2) obtain s1 where e: "exec s now c = Inr s1" and r: "run s1 cs = Inr s'"
    by (auto simp: a split: sum.splits)
  from Cons.prems(1) e have "reachable s1" by (rule reachable.transaction)
  then show ?case using r by (rule Cons.IH)
qed

lemma reachable_verified: "reachable verified"
  using run_setup reachable.deployed run_reachable unfolding verified_def by metis

lemma reachable_listed: "reachable listed"
  using reachable_verified step_list reachable.transaction unfolding verified_def listed_def
  by metis

lemma reachable_in_escrow: "reachable in_escrow"
  using reachable_listed step_purchase reachable.transaction unfolding listed_def by metis

lemma reachable_in_dispute: "reachable in_dispute"
  using reachable_in_escrow step_dispute reachable.transaction unfolding in_dispute_def by metis

lemma reachable_buyer_confirmed: "reachable buyer_confirmed"
  using reachable_in_escrow step_confirm_buyer reachable.transaction
  unfolding buyer_confirmed_def by metis

lemma reachable_settled: "reachable settled"
  using reachable_buyer_confirmed step_confirm_seller reachable.transaction
  unfolding buyer_confirmed_def settled_def by metis

lemma step_relist: "exec settled 17 (ListTicket 3 0 500) = Inr relisted"
  by (simp add: settled_def relisted_def nft_defs mkt_defs scene_defs fun_eq_iff)

lemma reachable_relisted: "reachable relisted"
  using reachable_settled step_relist reachable.transaction by metis

lemma step_pause: "exec listed 14 (Pause 1) = Inr listed_paused"
  by (simp add: listed_paused_def listed_def pause_def scene_def)

lemma reachable_listed_paused: "reachable listed_paused"
  using reachable_listed step_pause reachable.transaction by metis

lemma run_seller_refuses:
  "run (mkt_constructor (nft_constructor 1) 100 1 (funds 0 0 0 5000) (\<lambda>a. a \<noteq> 2) (\<lambda>_. True))
     [(10, AuthorizeMarketplace 1 100),
      (11, MintTicket 2 ''Rock Concert 2024'' ''2024-12-31'' ''Madison Square Garden''
             ''Section A, Row 5, Seat 10'' 1000 ''QmYw'' ''ipfs://QmYw'' []),
      (12, VerifyTicket 1 0)]
   = Inr (verified\<lparr> acceptsEther := (\<lambda>a. a \<noteq> 2) \<rparr>)"
  by (simp add: verified_def mkt_constructor_def nft_constructor_def nft_defs mkt_defs scene_defs
      nft_onlyAdmin_def fun_eq_iff)

lemma step_list_seller_refuses:
  "exec (verified\<lparr> acceptsEther := (\<lambda>a. a \<noteq> 2) \<rparr>) 13 (ListTicket 2 0 1000)
   = Inr (listed\<lparr> acceptsEther := (\<lambda>a. a \<noteq> 2) \<rparr>)"
  by (simp add: verified_def listed_def nft_defs mkt_defs scene_defs fun_eq_iff)

lemma step_purchase_seller_refuses:
  "exec (listed\<lparr> acceptsEther := (\<lambda>a. a \<noteq> 2) \<rparr>) 14 (PurchaseTicket 3 1000 0) = Inr seller_refuses"
  by (simp add: listed_def seller_refuses_def in_escrow_def nft_defs mkt_defs scene_defs Let_def
      fun_eq_iff)

lemma reachable_seller_refuses: "reachable seller_refuses"
proof -
  have "reachable (verified\<lparr> acceptsEther := (\<lambda>a. a \<noteq> 2) \<rparr>)"
    using run_seller_refuses reachable.deployed run_reachable by metis
  then have "reachable (listed\<lparr> acceptsEther := (\<lambda>a. a \<noteq> 2) \<rparr>)"
    using step_list_seller_refuses reachable.transaction by metis
  then show ?thesis
    using step_purchase_seller_refuses reachable.transaction by metis
qed

lemma step_withdraw: "exec in_escrow 15 (WithdrawFees 1) = Inr drained"
  by (simp add: in_escrow_def drained_def nft_defs mkt_defs scene_defs Let_def fun_eq_iff)

lemma step_burn: "exec in_escrow 15 (Burn 3 0) = Inr burnt"
  by (simp add: burnt_def in_escrow_def nft_defs mkt_defs scene_defs fun_eq_iff)

section \<open>The recipient's calls during the mint, step by step\<close>

lemma run_setup2:
  "run (mkt_constructor (nft_constructor 1) 100 1 (funds 0 0 0 5000) (\<lambda>_. True) (\<lambda>_. True))
     [(10, AuthorizeMarketplace 1 100), (10, NftAddAdmin 1 2)]
   = Inr before_mint"
  by (simp add: before_mint_def mkt_constructor_def nft_constructor_def nft_defs mkt_defs
      scene2_defs fun_eq_iff)

lemma reachable_before_mint: "reachable before_mint"
  using run_setup2 reachable.deployed run_reachable by metis

lemma begin_mint: "mintTicket_begin (nft before_mint) 2 = Inr (nft minting, 0)"
  by (simp add: before_mint_def minting_def nft_defs scene2_defs Let_def fun_eq_iff)

lemma minting_state: "before_mint\<lparr> nft := nft minting \<rparr> = minting"
  by (simp add: before_mint_def minting_def scene2_def)

lemma hook_step1: "exec minting 11 (VerifyTicket 2 0) = Inr hook_verified"
  by (simp add: minting_def hook_verified_def nft_defs mkt_defs scene2_defs nft_onlyAdmin_def
      fun_eq_iff)

lemma hook_step2: "exec hook_verified 11 (ListTicket 2 0 1000) = Inr hook_listed"
  by (simp add: hook_verified_def hook_listed_def nft_defs mkt_defs scene2_defs fun_eq_iff)

lemma hook_step3: "exec hook_listed 11 (PurchaseTicket 3 1000 0) = Inr hook_in_escrow"
  by (simp add: hook_listed_def hook_in_escrow_def nft_defs mkt_defs scene2_defs Let_def
      fun_eq_iff)

lemma hook_step4: "exec hook_in_escrow 11 (ConfirmTransaction 3 0) = Inr hook_buyer_confirmed"
  by (simp add: hook_in_escrow_def hook_buyer_confirmed_def nft_defs mkt_defs scene2_defs Let_def
      fun_eq_iff)

lemma hook_step5: "exec hook_buyer_confirmed 11 (ConfirmTransaction 2 0) = Inr hook_settled"
  by (simp add: hook_buyer_confirmed_def hook_settled_def nft_defs mkt_defs scene2_defs
      MAX_UINT256_def Let_def fun_eq_iff)


lemma finish_sold:
  "on_nft hook_settled
     (mintTicket_finish (nft hook_settled) (acceptsERC721 hook_settled) 11 2 0
        ''Rock Concert 2024'' ''2024-12-31'' ''Madison Square Garden''
        ''Section A, Row 5, Seat 10'' 1000 ''QmYw'' ''ipfs://QmYw'')
   = Inr minted_sold"
  by (simp add: hook_settled_def minted_sold_def nft_defs on_nft_def scene2_defs fun_eq_iff)


lemma mint_sold: "exec before_mint 11 (mint0 mint_hook) = Inr minted_sold"
  by (simp only: mint0_def mint_hook_def exec.simps(1) exec_hook.simps begin_mint minting_state
      hook_step1 hook_step2 hook_step3 hook_step4 hook_step5 finish_sold sum.case prod.case)


lemma reachable_minted_sold: "reachable minted_sold"
  using reachable_before_mint mint_sold reachable.transaction by metis

lemma step_verify_again: "exec minted_sold 12 (VerifyTicket 1 0) = Inr verified_again"
  by (simp add: minted_sold_def verified_again_def nft_defs mkt_defs scene2_defs nft_onlyAdmin_def
      fun_eq_iff)

lemma step_list_again: "exec verified_again 13 (ListTicket 3 0 500) = Inr listed_again"
  by (simp add: verified_again_def listed_again_def nft_defs mkt_defs scene2_defs fun_eq_iff)

lemma step_buy_again: "exec listed_again 14 (PurchaseTicket 2 500 0) = Inr bought_again"
  by (simp add: listed_again_def bought_again_def nft_defs mkt_defs scene2_defs Let_def
      fun_eq_iff)

section \<open>Completing an escrow unlocks the ticket\<close>

text \<open>
  The only transactions that set an escrow's \<open>completed\<close> flag end with \<^verbatim>\<open>unlockTicket\<close>
  on its token, and a ticket that is \<open>sold\<close> cannot be bought.
\<close>

lemma exec_escrowTransactions:
  assumes "exec s now c = Inr s'"
    and "\<not> completed (escrowTransactions s t)" and "completed (escrowTransactions s' t)"
    and "\<not> is_mint c"
  shows "unlockTicket (nft s) (this s) t = Inr (nft s')
       \<or> (\<exists>n1. marketplaceTransfer (nft s) (this s) (buyer (escrowTransactions s t))
                  (e_seller (escrowTransactions s t)) t = Inr n1
              \<and> unlockTicket n1 (this s) t = Inr (nft s'))"
proof (cases c)
  case (MintTicket dst a b c2 d p h u hook)
  with assms(4) show ?thesis by simp
next
  case (ListTicket sender tokenId p)
  with assms show ?thesis
    by (auto simp: listTicket_def split: if_splits sum.splits)
next
  case (UnlistTicket sender tokenId)
  with assms show ?thesis
    by (auto simp: unlistTicket_def removeFromListedTokens_def set_inactive_def split: if_splits)
next
  case (PurchaseTicket sender val tokenId)
  with assms show ?thesis
    by (auto simp: purchaseTicket_def Let_def removeFromListedTokens_def set_inactive_def
        dest!: receive_value_Inr split: if_splits sum.splits)
next
  case (ConfirmTransaction sender tokenId)
  with assms have r: "confirmTransaction s sender tokenId = Inr s'" by simp
  show ?thesis
  proof (cases "tokenId = t")
    case True
    from r assms(2,3) show ?thesis
      by (auto simp: True confirmTransaction_def Let_def set_escrow_def
          dest!: completeEscrow_nft split: if_splits sum.splits)
  next
    case False
    with r assms(2,3) show ?thesis
      by (auto simp: confirmTransaction_def Let_def set_escrow_def
          dest!: completeEscrow_effect(1) split: if_splits sum.splits)
  qed
next
  case (AutoReleaseEscrow tokenId)
  with assms have r: "autoReleaseEscrow s now tokenId = Inr s'" by simp
  show ?thesis
  proof (cases "tokenId = t")
    case True
    with autoReleaseEscrow_nft [OF r] show ?thesis by simp
  next
    case False
    with r assms(2,3) show ?thesis
      by (auto simp: autoReleaseEscrow_def Let_def dest!: completeEscrow_effect(1)
          split: if_splits)
  qed
next
  case (RaiseDispute sender tokenId reason)
  with assms show ?thesis
    by (auto simp: raiseDispute_def Let_def set_escrow_def split: if_splits sum.splits)
next
  case (ResolveDispute sender tokenId sellerWins)
  with assms have r: "resolveDispute s sender tokenId sellerWins = Inr s'" by simp
  show ?thesis
  proof (cases "tokenId = t")
    case True
    with resolveDispute_nft [OF r] show ?thesis by (cases sellerWins) auto
  next
    case False
    with r assms(2,3) show ?thesis
      by (auto simp: resolveDispute_def refundBuyer_def Let_def removeFromEscrowTokens_def
          set_completed_def dest!: releaseFundsToSeller_Inr transfer_ether_Inr
          split: if_splits sum.splits)
  qed
qed (use assms in \<open>auto simp: updateMarketplaceFee_def addAdmin_def removeAdmin_def
       withdrawFees_def pause_def unpause_def emergencyRecoverToken_def transferOwnership_def
       renounceOwnership_def Let_def
       dest!: on_nft_Inr transfer_ether_Inr split: if_splits sum.splits\<close>)

lemma unlockTicket_sold:
  "unlockTicket n sender t = Inr n' \<Longrightarrow>
     sold n' t \<and> status (ticketInfo n' t) = UNLOCKED \<and> exists_token n' t"
  by (auto simp: sold_def exists_token_def dest!: unlockTicket_Inr)

lemma completed_escrow_sold:
  assumes "exec s now c = Inr s'"
    and "\<not> completed (escrowTransactions s t)" and "completed (escrowTransactions s' t)"
    and "\<not> is_mint c"
  shows "sold (nft s') t \<and> status (ticketInfo (nft s') t) = UNLOCKED \<and> exists_token (nft s') t"
  using exec_escrowTransactions [OF assms] unlockTicket_sold by blast

text \<open>
  A completed escrow's ticket is \<open>sold\<close>: every transaction in which the id is not minted
  keeps this, a recipient's calls during a mint of another id included.
\<close>

lemma exec_completed_sold:
  assumes "exec s now c = Inr s'" and "t \<notin> set (minted_ids s now c)"
    and "completed (escrowTransactions s t) \<longrightarrow> sold (nft s) t"
  shows "completed (escrowTransactions s' t) \<longrightarrow> sold (nft s') t"
proof (rule exec_preserves(1)
    [where P = "\<lambda>s. completed (escrowTransactions s t) \<longrightarrow> sold (nft s) t" and M = "- {t}",
      OF _ _ _ assms(1) _ assms(3)])
  fix s now c s'
  assume c: "\<not> is_mint c" and e: "exec s now c = Inr s'"
    and i: "completed (escrowTransactions s t) \<longrightarrow> sold (nft s) t"
  show "completed (escrowTransactions s' t) \<longrightarrow> sold (nft s') t"
  proof (cases "completed (escrowTransactions s t)")
    case True
    with i have "sold (nft s) t" by simp
    with e c have "sold (nft s') t"
      using exec_nft_steps nft_steps_sold by blast
    then show ?thesis by simp
  next
    case False
    with e c show ?thesis
      using completed_escrow_sold by blast
  qed
next
  fix s :: world and to n1 tokenId
  assume "mintTicket_begin (nft s) to = Inr (n1, tokenId)"
    "completed (escrowTransactions s t) \<longrightarrow> sold (nft s) t"
  then show "completed (escrowTransactions (s\<lparr> nft := n1 \<rparr>) t) \<longrightarrow> sold (nft (s\<lparr> nft := n1 \<rparr>)) t"
    by (auto simp: sold_def dest!: mintTicket_begin_Inr)
next
  fix s :: world and acc now to tokenId a b c d p h u n'
  assume "tokenId \<in> - {t}"
    "mintTicket_finish (nft s) acc now to tokenId a b c d p h u = Inr n'"
    "completed (escrowTransactions s t) \<longrightarrow> sold (nft s) t"
  then show "completed (escrowTransactions (s\<lparr> nft := n' \<rparr>) t) \<longrightarrow> sold (nft (s\<lparr> nft := n' \<rparr>)) t"
    by (auto simp: sold_def dest!: mintTicket_finish_Inr)
next
  from assms(2) show "set (minted_ids s now c) \<subseteq> - {t}" by auto
qed

lemma sold_purchase_reverts:
  "sold (nft s) t \<Longrightarrow> \<exists>msg. purchaseTicket s now b v t = Inl msg"
  by (cases "purchaseTicket s now b v t")
     (auto simp: sold_def dest!: purchaseTicket_nft lockTicket_Inr)

section \<open>More on the scenario and on purchases\<close>

lemma step_resolve_for_buyer: "exec in_dispute 20 (ResolveDispute 1 0 False) = Inr refunded"
  by (simp add: in_dispute_def refunded_def nft_defs mkt_defs scene_defs Let_def fun_eq_iff)

lemma purchaseTicket_effect:
  assumes "purchaseTicket s now b v t = Inr s'"
  shows "\<not> paused s" and "validTokenId s t" and "active (listings s t)"
    and "v = price (listings s t)" and "b \<noteq> seller (listings s t)" and "\<not> isInEscrow s t"
    and "v \<le> balances s b"
    and "escrowTransactions s' = (escrowTransactions s)(t :=
           \<lparr> e_tokenId = t, e_seller = seller (listings s t), buyer = b,
             e_price = price (listings s t), startTime = now,
             sellerConfirmed = False, buyerConfirmed = False, disputed = False,
             completed = False, disputeReason = [] \<rparr>)"
    and "listings s' = (listings s)(t := (listings s t)\<lparr> active := False \<rparr>)"
    and "listedTokenIds s' = removeFrom_loop t 0 (listedTokenIds s)"
    and "escrowTokenIds s' = escrowTokenIds s @ [t]"
  using assms
  by (auto simp: purchaseTicket_def Let_def isInEscrow_def validTokenId_def
      removeFromListedTokens_def set_inactive_def
      dest!: receive_value_Inr split: if_splits sum.splits)

section \<open>Withdrawal of fees\<close>

text \<open>
  Claim C1. \<^verbatim>\<open>withdrawFees\<close> is for the owner only and is documented to withdraw the
  accumulated fees, leaving the funds of open escrows in the marketplace. The function
  sends \<^verbatim>\<open>address(this).balance\<close>: in the reachable state where the only money the
  marketplace holds is the 1000 paid into a still open escrow and no sale has settled, so
  that no fee has accrued, the owner's call succeeds and takes all 1000; the escrow stays
  open with nothing left to pay it out, and its auto-release after the deadline reverts.
\<close>

theorem withdrawFees_takes_escrowed_funds:
  "reachable in_escrow
   \<and> isInEscrow in_escrow 0 \<and> e_price (escrowTransactions in_escrow 0) = 1000
   \<and> balances in_escrow (this in_escrow) = 1000
   \<and> withdrawFees in_escrow (owner in_escrow) = Inr drained
   \<and> balances drained (this drained) = 0
   \<and> balances drained (owner drained) = balances in_escrow (owner in_escrow) + 1000
   \<and> isInEscrow drained 0
   \<and> autoReleaseEscrow drained 604814 0 = Inl ''transfer: insufficient balance''"
proof -
  have "withdrawFees in_escrow (owner in_escrow) = Inr drained"
    using step_withdraw by (simp add: in_escrow_def scene_def)
  moreover have "autoReleaseEscrow drained 604814 0 = Inl ''transfer: insufficient balance''"
    by (simp add: drained_def nft_defs mkt_defs scene_defs MAX_UINT256_def
        CONFIRMATION_PERIOD_def Let_def)
  moreover have "isInEscrow in_escrow 0 \<and> e_price (escrowTransactions in_escrow 0) = 1000
      \<and> balances in_escrow (this in_escrow) = 1000 \<and> balances drained (this drained) = 0
      \<and> balances drained (owner drained) = balances in_escrow (owner in_escrow) + 1000
      \<and> isInEscrow drained 0"
    by (simp add: in_escrow_def drained_def isInEscrow_def scene_defs)
  ultimately show ?thesis using reachable_in_escrow by simp
qed

section \<open>Lock flag and status\<close>





section \<open>Buying a ticket that is listed again\<close>

text \<open>
  Claim C3. A ticket whose sale has settled is \<open>UNLOCKED\<close>, and \<^verbatim>\<open>listTicket\<close> accepts it,
  so its new holder can list it again. The claim says a purchase of that listing locks the
  ticket. In the code the purchase calls \<^verbatim>\<open>lockTicket\<close>, which demands \<open>VERIFIED\<close>: the
  purchase of the ticket listed again by account 3, with the exact price, by another
  account, with no open escrow and nothing paused, reverts with "Ticket not verified".
\<close>

theorem purchase_of_relisted_ticket_reverts:
  "reachable relisted
   \<and> status (ticketInfo (nft relisted) 0) = UNLOCKED \<and> owners (nft relisted) 0 = 3
   \<and> active (listings relisted 0) \<and> seller (listings relisted 0) = 3
   \<and> price (listings relisted 0) = 500 \<and> \<not> isInEscrow relisted 0
   \<and> \<not> paused relisted \<and> 500 \<le> balances relisted 2
   \<and> purchaseTicket relisted 18 2 500 0 = Inl ''Ticket not verified''"
proof -
  have "purchaseTicket relisted 18 2 500 0 = Inl ''Ticket not verified''"
    by (simp add: relisted_def nft_defs mkt_defs scene_defs Let_def)
  moreover have "status (ticketInfo (nft relisted) 0) = UNLOCKED \<and> owners (nft relisted) 0 = 3
      \<and> active (listings relisted 0) \<and> seller (listings relisted 0) = 3
      \<and> price (listings relisted 0) = 500 \<and> \<not> isInEscrow relisted 0
      \<and> \<not> paused relisted \<and> 500 \<le> balances relisted 2"
    by (simp add: relisted_def isInEscrow_def scene_defs)
  ultimately show ?thesis using reachable_relisted by simp
qed

section \<open>No purchase after a completed escrow\<close>

text \<open>
  Claim C4, as amended. Take any transaction that completes the escrow of ticket \<open>t\<close> (it
  succeeds and turns the escrow's \<open>completed\<close> flag from false to true) and in which the
  id \<open>t\<close> is not minted, and any state \<open>s'\<close> reached from its result by further
  successful transactions in none of which the id \<open>t\<close> is minted. In \<open>s'\<close> the ticket's
  status is \<open>UNLOCKED\<close> or \<open>DISPUTED\<close>, never \<open>VERIFIED\<close> again, and every purchase of
  \<open>t\<close> in \<open>s'\<close> reverts, whoever buys, at whatever price and time. When the completing
  transaction is not a mint, it leaves the ticket \<open>UNLOCKED\<close>, and the holder can list
  the ticket again right after it (when the marketplace is not paused, the id is valid, no
  listing is active and the price is positive).
\<close>

theorem no_purchase_after_completed_escrow:
  assumes "exec s0 now c = Inr s" and "t \<notin> set (minted_ids s0 now c)"
    and "\<not> completed (escrowTransactions s0 t)" and "completed (escrowTransactions s t)"
    and "future_without_mint t s s'"
  shows "(status (ticketInfo (nft s') t) = UNLOCKED \<or> status (ticketInfo (nft s') t) = DISPUTED)
       \<and> (\<exists>msg. purchaseTicket s' now' b v t = Inl msg)
       \<and> (\<not> is_mint c \<longrightarrow> status (ticketInfo (nft s) t) = UNLOCKED)
       \<and> (\<not> is_mint c \<and> \<not> paused s \<and> validTokenId s t \<and> \<not> active (listings s t) \<and> p > 0
            \<longrightarrow> (\<exists>s2. listTicket s now2 (owners (nft s) t) t p = Inr s2))"
proof -
  from exec_completed_sold [OF assms(1,2)] assms(3,4) have sold: "sold (nft s) t"
    by simp
  from future_without_mint_sold [OF assms(5) sold] have sold': "sold (nft s') t" .
  have st: "status (ticketInfo (nft s) t) = UNLOCKED \<and> exists_token (nft s) t" if "\<not> is_mint c"
    using completed_escrow_sold [OF assms(1,3,4) that] by simp
  have relist: "\<exists>s2. listTicket s now2 (owners (nft s) t) t p = Inr s2"
    if "\<not> is_mint c \<and> \<not> paused s \<and> validTokenId s t \<and> \<not> active (listings s t) \<and> p > 0"
    using that st
    by (simp add: listTicket_def ownerOf_def getTicketInfo_def exists_token_def)
  from st sold' sold_purchase_reverts [OF sold'] relist show ?thesis
    by (auto simp: sold_def)
qed

theorem no_purchase_after_completed_escrow_witness:
  "exec buyer_confirmed 16 (ConfirmTransaction 2 0) = Inr settled
   \<and> 0 \<notin> set (minted_ids buyer_confirmed 16 (ConfirmTransaction 2 0))
   \<and> \<not> completed (escrowTransactions buyer_confirmed 0)
   \<and> completed (escrowTransactions settled 0)
   \<and> future_without_mint 0 settled relisted
   \<and> status (ticketInfo (nft settled) 0) = UNLOCKED
   \<and> status (ticketInfo (nft relisted) 0) = UNLOCKED
   \<and> active (listings relisted 0) \<and> price (listings relisted 0) = 500
   \<and> (\<exists>msg. purchaseTicket relisted 18 2 500 0 = Inl msg)
   \<and> \<not> paused settled \<and> validTokenId settled 0 \<and> \<not> active (listings settled 0)
   \<and> owners (nft settled) 0 = 3
   \<and> (\<exists>s2. listTicket settled 17 3 0 500 = Inr s2)"
proof -
  have ex: "exec buyer_confirmed 16 (ConfirmTransaction 2 0) = Inr settled"
    using step_confirm_seller by (simp add: buyer_confirmed_def settled_def)
  have nm: "0 \<notin> set (minted_ids buyer_confirmed 16 (ConfirmTransaction 2 0))"
    and c: "\<not> is_mint (ConfirmTransaction 2 0)"
    by simp_all
  have before: "\<not> completed (escrowTransactions buyer_confirmed 0)"
    and after: "completed (escrowTransactions settled 0)"
    by (simp_all add: buyer_confirmed_def settled_def scene_def escrow0_def)
  have fut: "future_without_mint 0 settled relisted"
    using future_without_mint.now_ [of 0 settled] step_relist
    by (rule future_without_mint.later) simp
  have pre: "\<not> paused settled \<and> validTokenId settled 0 \<and> \<not> active (listings settled 0)
      \<and> (500::nat) > 0"
    and own: "owners (nft settled) 0 = 3"
    and rel: "status (ticketInfo (nft relisted) 0) = UNLOCKED"
      "active (listings relisted 0)" "price (listings relisted 0) = 500"
    by (simp_all add: settled_def relisted_def scene_defs validTokenId_def totalSupply_def)
  from no_purchase_after_completed_escrow [OF ex nm before after fut, of 18 2 500 500 17]
    ex nm c before after fut pre own rel
  show ?thesis by auto
qed

text \<open>
  The claim as stated holds for every completed escrow. An escrow that is completed
  while the ticket is being minted, by the calls of the recipient, is followed by the
  mint's write of the ticket record, which sets the status to \<open>PENDING\<close>. The admin can
  then verify the ticket, its holder can list it, and the purchase succeeds.
\<close>

theorem purchase_after_completed_escrow_counterexample:
  "reachable before_mint
   \<and> exec before_mint 11 (mint0 mint_hook) = Inr minted_sold
   \<and> \<not> completed (escrowTransactions before_mint 0)
   \<and> completed (escrowTransactions minted_sold 0)
   \<and> status (ticketInfo (nft minted_sold) 0) = PENDING
   \<and> exec minted_sold 12 (VerifyTicket 1 0) = Inr verified_again
   \<and> exec verified_again 13 (ListTicket 3 0 500) = Inr listed_again
   \<and> future minted_sold listed_again
   \<and> purchaseTicket listed_again 14 2 500 0 = Inr bought_again"
proof -
  have fut: "future minted_sold listed_again"
    using future.later [OF future.later [OF future.now_ step_verify_again] step_list_again] .
  have vals: "\<not> completed (escrowTransactions before_mint 0)"
    "completed (escrowTransactions minted_sold 0)"
    "status (ticketInfo (nft minted_sold) 0) = PENDING"
    by (simp_all add: before_mint_def minted_sold_def scene2_defs)
  have buy: "purchaseTicket listed_again 14 2 500 0 = Inr bought_again"
    using step_buy_again by simp
  from reachable_before_mint mint_sold vals step_verify_again step_list_again fut buy
  show ?thesis by simp
qed

section \<open>Purchase\<close>

text \<open>
  Claim C5, as amended. In a reachable state, a purchase succeeds only if there is an
  active listing for the ticket, the payment equals its price, the buyer is not the
  listing's seller and no open escrow exists for the ticket, and also the marketplace is
  not paused, the token id is valid, the buyer has the money, the marketplace is
  authorized in the token contract, the token contract is not paused and the seller still
  owns the ticket. When all of these hold and the ticket's status is \<open>VERIFIED\<close>, the
  purchase succeeds. On success the ticket is locked with status \<open>LOCKED\<close>, the escrow
  record is the fresh one (all four flags false, \<open>startTime = now\<close>), it is an open
  escrow, the buyer owns the still locked ticket, the listing is inactive and gone from
  the listed index, and the token id is appended to the in-escrow index.
\<close>

theorem purchase_requirements_and_effects:
  assumes "reachable s"
  shows "(purchaseTicket s now b v t = Inr s'
            \<longrightarrow> active (listings s t) \<and> v = price (listings s t) \<and> b \<noteq> seller (listings s t)
                \<and> \<not> isInEscrow s t
                \<and> \<not> paused s \<and> validTokenId s t \<and> v \<le> balances s b
                \<and> authorizedMarketplace (nft s) (this s) \<and> \<not> nft_paused (nft s)
                \<and> owners (nft s) t = seller (listings s t)
                \<and> isLocked (nft s') t \<and> status (ticketInfo (nft s') t) = LOCKED
                \<and> escrowTransactions s' t =
                     \<lparr> e_tokenId = t, e_seller = seller (listings s t), buyer = b,
                       e_price = price (listings s t), startTime = now,
                       sellerConfirmed = False, buyerConfirmed = False, disputed = False,
                       completed = False, disputeReason = [] \<rparr>
                \<and> isInEscrow s' t
                \<and> owners (nft s') t = b
                \<and> listings s' t = (listings s t)\<lparr> active := False \<rparr>
                \<and> t \<notin> set (listedTokenIds s')
                \<and> escrowTokenIds s' = escrowTokenIds s @ [t])
       \<and> (active (listings s t) \<and> v = price (listings s t) \<and> b \<noteq> seller (listings s t)
            \<and> \<not> isInEscrow s t
            \<and> \<not> paused s \<and> validTokenId s t \<and> v \<le> balances s b
            \<and> authorizedMarketplace (nft s) (this s) \<and> \<not> nft_paused (nft s)
            \<and> owners (nft s) t = seller (listings s t) \<and> seller (listings s t) \<noteq> 0 \<and> b \<noteq> 0
            \<and> status (ticketInfo (nft s) t) = VERIFIED
            \<longrightarrow> (\<exists>s2. purchaseTicket s now b v t = Inr s2))"
proof (intro conjI impI)
  assume r: "purchaseTicket s now b v t = Inr s'"
  let ?l = "listings s t"
  note eff = purchaseTicket_effect [OF r]
  from purchaseTicket_nft [OF r] obtain n1 where
    lk: "lockTicket (nft s) (this s) t = Inr n1"
    and mt: "marketplaceTransfer n1 (this s) (seller ?l) b t = Inr (nft s')"
    by blast
  from eff show "active ?l" "v = price ?l" "b \<noteq> seller ?l" "\<not> isInEscrow s t"
    "\<not> paused s" "validTokenId s t" "v \<le> balances s b"
    by simp_all
  from lockTicket_Inr [OF lk] have
    n1: "n1 = set_status ((nft s)\<lparr> isLocked := (isLocked (nft s))(t := True) \<rparr>) t LOCKED"
    and auth: "authorizedMarketplace (nft s) (this s)"
    by simp_all
  from mt have mt': "transfer_internal n1 (seller ?l) b t = Inr (nft s')"
    by (simp add: marketplaceTransfer_def split: if_splits)
  from transfer_internal_Inr [OF mt'] n1 auth show
    "authorizedMarketplace (nft s) (this s)" "\<not> nft_paused (nft s)"
    "owners (nft s) t = seller ?l"
    by (simp_all add: set_status_def)
  from transfer_internal_Inr [OF mt'] n1 show
    "isLocked (nft s') t" "status (ticketInfo (nft s') t) = LOCKED" "owners (nft s') t = b"
    by (simp_all add: set_status_def)
  from eff(8) show esc: "escrowTransactions s' t =
      \<lparr> e_tokenId = t, e_seller = seller ?l, buyer = b, e_price = price ?l, startTime = now,
        sellerConfirmed = False, buyerConfirmed = False, disputed = False, completed = False,
        disputeReason = [] \<rparr>"
    by simp
  from eff(11) show "escrowTokenIds s' = escrowTokenIds s @ [t]" .
  from eff(9) show "listings s' t = ?l\<lparr> active := False \<rparr>"
    by simp
  from reachable_index_consistent [OF assms] have
    d: "distinct (listedTokenIds s)" and pos: "active ?l \<longrightarrow> price ?l > 0"
    by (simp_all add: index_consistent_def)
  from removeFrom_loop_distinct [OF d, of t] eff(10) show "t \<notin> set (listedTokenIds s')"
    by simp
  from esc pos eff(3) show "isInEscrow s' t"
    by (simp add: isInEscrow_def)
next
  assume "active (listings s t) \<and> v = price (listings s t) \<and> b \<noteq> seller (listings s t)
      \<and> \<not> isInEscrow s t
      \<and> \<not> paused s \<and> validTokenId s t \<and> v \<le> balances s b
      \<and> authorizedMarketplace (nft s) (this s) \<and> \<not> nft_paused (nft s)
      \<and> owners (nft s) t = seller (listings s t) \<and> seller (listings s t) \<noteq> 0 \<and> b \<noteq> 0
      \<and> status (ticketInfo (nft s) t) = VERIFIED"
  then show "\<exists>s2. purchaseTicket s now b v t = Inr s2"
    by (auto simp: purchaseTicket_def receive_value_def isInEscrow_def validTokenId_def
        lockTicket_def marketplaceTransfer_def transfer_internal_def ownerOf_def
        exists_token_def set_status_def Let_def)
qed

theorem purchase_requirements_and_effects_witness:
  "reachable listed
   \<and> active (listings listed 0) \<and> 1000 = price (listings listed 0) \<and> 3 \<noteq> seller (listings listed 0)
   \<and> \<not> isInEscrow listed 0
   \<and> \<not> paused listed \<and> validTokenId listed 0 \<and> 1000 \<le> balances listed 3
   \<and> authorizedMarketplace (nft listed) (this listed) \<and> \<not> nft_paused (nft listed)
   \<and> owners (nft listed) 0 = seller (listings listed 0) \<and> seller (listings listed 0) \<noteq> 0
   \<and> status (ticketInfo (nft listed) 0) = VERIFIED
   \<and> (\<exists>s2. purchaseTicket listed 14 3 1000 0 = Inr s2)
   \<and> purchaseTicket listed 14 3 1000 0 = Inr in_escrow
   \<and> isLocked (nft in_escrow) 0 \<and> status (ticketInfo (nft in_escrow) 0) = LOCKED
   \<and> escrowTransactions in_escrow 0 =
        \<lparr> e_tokenId = 0, e_seller = 2, buyer = 3, e_price = 1000, startTime = 14,
          sellerConfirmed = False, buyerConfirmed = False, disputed = False,
          completed = False, disputeReason = [] \<rparr>
   \<and> isInEscrow in_escrow 0
   \<and> owners (nft in_escrow) 0 = 3
   \<and> \<not> active (listings in_escrow 0)
   \<and> 0 \<notin> set (listedTokenIds in_escrow)
   \<and> escrowTokenIds in_escrow = escrowTokenIds listed @ [0]"
proof -
  have p: "purchaseTicket listed 14 3 1000 0 = Inr in_escrow"
    using step_purchase by (simp add: listed_def)
  have pre: "active (listings listed 0) \<and> 1000 = price (listings listed 0)
      \<and> 3 \<noteq> seller (listings listed 0) \<and> \<not> isInEscrow listed 0
      \<and> \<not> paused listed \<and> validTokenId listed 0 \<and> 1000 \<le> balances listed 3
      \<and> authorizedMarketplace (nft listed) (this listed) \<and> \<not> nft_paused (nft listed)
      \<and> owners (nft listed) 0 = seller (listings listed 0) \<and> seller (listings listed 0) \<noteq> 0
      \<and> (3::nat) \<noteq> 0 \<and> status (ticketInfo (nft listed) 0) = VERIFIED"
    by (simp add: listed_def scene_defs isInEscrow_def validTokenId_def totalSupply_def)
  have vals: "seller (listings listed 0) = 2" "price (listings listed 0) = 1000"
    "\<not> active (listings in_escrow 0)"
    by (simp_all add: listed_def in_escrow_def scene_defs)
  note T = purchase_requirements_and_effects [OF reachable_listed, of 14 3 1000 0 in_escrow]
  from T pre have ex: "\<exists>s2. purchaseTicket listed 14 3 1000 0 = Inr s2"
    by blast
  from T p have eff: "isLocked (nft in_escrow) 0" "status (ticketInfo (nft in_escrow) 0) = LOCKED"
    "isInEscrow in_escrow 0" "owners (nft in_escrow) 0 = 3"
    "0 \<notin> set (listedTokenIds in_escrow)"
    "escrowTokenIds in_escrow = escrowTokenIds listed @ [0]"
    by blast+
  from T p vals have esc: "escrowTransactions in_escrow 0 =
        \<lparr> e_tokenId = 0, e_seller = 2, buyer = 3, e_price = 1000, startTime = 14,
          sellerConfirmed = False, buyerConfirmed = False, disputed = False,
          completed = False, disputeReason = [] \<rparr>"
    by simp
  from reachable_listed pre ex p eff esc vals(3) show ?thesis
    by blast
qed

text \<open>
  The claim as stated makes the four conditions sufficient. With the marketplace paused
  they all hold for the listed ticket, and the purchase reverts.
\<close>

theorem purchase_while_paused_counterexample:
  "reachable listed_paused
   \<and> active (listings listed_paused 0) \<and> price (listings listed_paused 0) = 1000
   \<and> seller (listings listed_paused 0) = 2 \<and> \<not> isInEscrow listed_paused 0
   \<and> purchaseTicket listed_paused 14 3 1000 0 = Inl ''Pausable: paused''"
  using reachable_listed_paused
  by (simp add: listed_paused_def listed_def scene_defs isInEscrow_def purchaseTicket_def
      receive_value_def)

section \<open>Settlement amounts\<close>

text \<open>
  Claim C6. Whenever a confirmation or an auto-release settles an escrow (the transaction
  succeeds and turns the escrow's \<open>completed\<close> flag from false to true), the fee is
  \<open>price * marketplaceFee div 10000\<close>, it does not exceed the price, the seller's balance
  grows by exactly \<open>price - fee\<close>, the marketplace's balance shrinks by exactly that
  amount (so of the price it held, exactly the fee stays behind), and no other balance
  changes: the buyer pays nothing beyond the price, the seller loses nothing beyond the fee.
\<close>

theorem settlement_pays_price_minus_fee:
  assumes "exec s now c = Inr s'"
    and "c = ConfirmTransaction sender t \<or> c = AutoReleaseEscrow t"
    and "\<not> completed (escrowTransactions s t)" and "completed (escrowTransactions s' t)"
  shows "settlement_fee s (e_price (escrowTransactions s t))
            = (e_price (escrowTransactions s t) * marketplaceFee s) div 10000
       \<and> settlement_fee s (e_price (escrowTransactions s t)) \<le> e_price (escrowTransactions s t)
       \<and> balances s' (e_seller (escrowTransactions s t))
            = balances s (e_seller (escrowTransactions s t))
              + (e_price (escrowTransactions s t)
                   - settlement_fee s (e_price (escrowTransactions s t)))
       \<and> balances s' (this s) + (e_price (escrowTransactions s t)
              - settlement_fee s (e_price (escrowTransactions s t))) = balances s (this s)
       \<and> (\<forall>a. a \<noteq> e_seller (escrowTransactions s t) \<and> a \<noteq> this s
              \<longrightarrow> balances s' a = balances s a)"
proof -
  define e where "e = escrowTransactions s t"
  from assms(2) show ?thesis
  proof
    assume c: "c = ConfirmTransaction sender t"
    with assms(1) have r: "confirmTransaction s sender t = Inr s'" by simp
    show ?thesis
    proof (cases "sender = e_seller e")
      case True
      with r assms(3,4) have
        "completeEscrow (set_escrow s t (e\<lparr> sellerConfirmed := True \<rparr>)) t = Inr s'"
        by (auto simp: confirmTransaction_def Let_def e_def set_escrow_def
            split: if_splits sum.splits)
      from completeEscrow_effect(3,5,9) [OF this] show ?thesis
        by (auto simp: set_escrow_def settlement_fee_def can_settle_def e_def Let_def)
    next
      case False
      with r assms(3,4) have
        "completeEscrow (set_escrow s t (e\<lparr> buyerConfirmed := True \<rparr>)) t = Inr s'"
        by (auto simp: confirmTransaction_def Let_def e_def set_escrow_def
            split: if_splits sum.splits)
      from completeEscrow_effect(3,5,9) [OF this] show ?thesis
        by (auto simp: set_escrow_def settlement_fee_def can_settle_def e_def Let_def)
    qed
  next
    assume c: "c = AutoReleaseEscrow t"
    with assms(1) have "completeEscrow s t = Inr s'"
      by (auto simp: autoReleaseEscrow_def Let_def split: if_splits)
    from completeEscrow_effect(3,5,9) [OF this] show ?thesis
      by (auto simp: settlement_fee_def can_settle_def Let_def)
  qed
qed

theorem settlement_pays_price_minus_fee_witness:
  "exec buyer_confirmed 16 (ConfirmTransaction 2 0) = Inr settled
   \<and> \<not> completed (escrowTransactions buyer_confirmed 0)
   \<and> completed (escrowTransactions settled 0)
   \<and> e_price (escrowTransactions buyer_confirmed 0) = 1000
   \<and> marketplaceFee buyer_confirmed = 250
   \<and> settlement_fee buyer_confirmed 1000 = 25
   \<and> balances settled 2 = balances buyer_confirmed 2 + 975
   \<and> balances settled 100 + 975 = balances buyer_confirmed 100
   \<and> balances settled 3 = balances buyer_confirmed 3"
proof -
  have ex: "exec buyer_confirmed 16 (ConfirmTransaction 2 0) = Inr settled"
    using step_confirm_seller by (simp add: buyer_confirmed_def settled_def)
  have c: "ConfirmTransaction 2 0 = ConfirmTransaction 2 0 \<or> ConfirmTransaction 2 0 = AutoReleaseEscrow 0"
    by simp
  have before: "\<not> completed (escrowTransactions buyer_confirmed 0)"
    and after: "completed (escrowTransactions settled 0)"
    by (simp_all add: buyer_confirmed_def settled_def scene_def escrow0_def)
  have vals: "e_price (escrowTransactions buyer_confirmed 0) = 1000"
    "marketplaceFee buyer_confirmed = 250" "e_seller (escrowTransactions buyer_confirmed 0) = 2"
    "this buyer_confirmed = 100"
    by (simp_all add: buyer_confirmed_def scene_def escrow0_def)
  from settlement_pays_price_minus_fee [OF ex c before after] vals ex before after
  show ?thesis by auto
qed

section \<open>Resolving a dispute for the buyer\<close>

text \<open>
  Claim C7. In a reachable state, a successful \<^verbatim>\<open>resolveDispute\<close> with \<open>sellerWins = False\<close>
  was called by an admin on a disputed escrow that was not completed; it pays the buyer the
  full escrow price out of the marketplace's balance and changes no other balance (no fee
  is kept, the seller gets nothing); the ticket, so far held by the buyer, goes back to the
  seller through \<^verbatim>\<open>marketplaceTransfer\<close>; the ticket is unlocked with status \<open>UNLOCKED\<close>;
  the escrow is marked completed and nothing else in it changes; and the token is no
  longer in the in-escrow index, which holds the same tokens otherwise. The call does succeed when the caller is an admin, the
  token id is valid, the escrow is disputed and not completed, the marketplace holds the
  price, the buyer takes the payment, and the token contract (not paused) lets the
  authorized marketplace move and unlock the locked ticket that the buyer holds.
\<close>

theorem resolveDispute_for_buyer:
  assumes "reachable s"
  shows "(resolveDispute s sender t False = Inr s'
            \<longrightarrow> onlyAdmin s sender
                \<and> disputed (escrowTransactions s t) \<and> \<not> completed (escrowTransactions s t)
                \<and> balances s' (buyer (escrowTransactions s t))
                     = balances s (buyer (escrowTransactions s t)) + e_price (escrowTransactions s t)
                \<and> balances s' (this s) + e_price (escrowTransactions s t) = balances s (this s)
                \<and> (\<forall>a. a \<noteq> buyer (escrowTransactions s t) \<and> a \<noteq> this s
                       \<longrightarrow> balances s' a = balances s a)
                \<and> owners (nft s) t = buyer (escrowTransactions s t)
                \<and> (\<exists>n1. marketplaceTransfer (nft s) (this s) (buyer (escrowTransactions s t))
                            (e_seller (escrowTransactions s t)) t = Inr n1
                        \<and> unlockTicket n1 (this s) t = Inr (nft s'))
                \<and> owners (nft s') t = e_seller (escrowTransactions s t)
                \<and> \<not> isLocked (nft s') t \<and> status (ticketInfo (nft s') t) = UNLOCKED
                \<and> escrowTransactions s' t = (escrowTransactions s t)\<lparr> completed := True \<rparr>
                \<and> escrowTokenIds s' = removeFrom_loop t 0 (escrowTokenIds s)
                \<and> t \<notin> set (escrowTokenIds s')
                \<and> set (escrowTokenIds s') = set (escrowTokenIds s) - {t})
       \<and> (onlyAdmin s sender \<and> validTokenId s t
            \<and> disputed (escrowTransactions s t) \<and> \<not> completed (escrowTransactions s t)
            \<and> e_price (escrowTransactions s t) \<le> balances s (this s)
            \<and> buyer (escrowTransactions s t) \<noteq> this s
            \<and> acceptsEther s (buyer (escrowTransactions s t))
            \<and> authorizedMarketplace (nft s) (this s) \<and> \<not> nft_paused (nft s)
            \<and> owners (nft s) t = buyer (escrowTransactions s t)
            \<and> buyer (escrowTransactions s t) \<noteq> 0 \<and> e_seller (escrowTransactions s t) \<noteq> 0
            \<and> isLocked (nft s) t
            \<longrightarrow> (\<exists>s2. resolveDispute s sender t False = Inr s2))"
proof (intro conjI impI)
  assume r: "resolveDispute s sender t False = Inr s'"
  let ?e = "escrowTransactions s t"
  from r obtain s1 n1 n2 where
    pre: "onlyAdmin s sender" "disputed ?e" "\<not> completed ?e"
    and tr: "transfer_ether s (buyer ?e) (e_price ?e) = Inr s1"
    and mt: "marketplaceTransfer (nft s1) (this s1) (buyer ?e) (e_seller ?e) t = Inr n1"
    and ul: "unlockTicket n1 (this s1) t = Inr n2"
    and s': "s' = removeFromEscrowTokens (set_completed (s1\<lparr> nft := n2 \<rparr>) t) t"
    by (auto simp: resolveDispute_def refundBuyer_def Let_def split: if_splits sum.splits)
  from pre show "onlyAdmin s sender" "disputed ?e" "\<not> completed ?e" by simp_all
  from resolveDispute_nft [OF r] show
    "\<exists>n1. marketplaceTransfer (nft s) (this s) (buyer ?e) (e_seller ?e) t = Inr n1
        \<and> unlockTicket n1 (this s) t = Inr (nft s')"
    by simp
  from transfer_ether_Inr [OF tr] have
    s1: "s1 = s\<lparr> balances := (balances s)(this s := balances s (this s) - e_price ?e,
                    buyer ?e := balances s (buyer ?e) + e_price ?e) \<rparr>"
    and le: "e_price ?e \<le> balances s (this s)" and ne: "buyer ?e \<noteq> this s"
    by simp_all
  from s' s1 ne le show
    "balances s' (buyer ?e) = balances s (buyer ?e) + e_price ?e"
    "balances s' (this s) + e_price ?e = balances s (this s)"
    "\<forall>a. a \<noteq> buyer ?e \<and> a \<noteq> this s \<longrightarrow> balances s' a = balances s a"
    by (simp_all add: removeFromEscrowTokens_def set_completed_def)
  from mt s1 have mt': "transfer_internal (nft s) (buyer ?e) (e_seller ?e) t = Inr n1"
    by (simp add: marketplaceTransfer_def split: if_splits)
  from transfer_internal_Inr [OF mt'] unlockTicket_Inr [OF ul] s' show
    "owners (nft s) t = buyer ?e" "owners (nft s') t = e_seller ?e"
    "\<not> isLocked (nft s') t" "status (ticketInfo (nft s') t) = UNLOCKED"
    by (simp_all add: removeFromEscrowTokens_def set_completed_def)
  from s' s1 show "escrowTransactions s' t = ?e\<lparr> completed := True \<rparr>"
    and idx: "escrowTokenIds s' = removeFrom_loop t 0 (escrowTokenIds s)"
    by (simp_all add: removeFromEscrowTokens_def set_completed_def)
  from reachable_index_consistent [OF assms] have "distinct (escrowTokenIds s)"
    by (simp add: index_consistent_def)
  from removeFrom_loop_distinct [OF this, of t] idx show "t \<notin> set (escrowTokenIds s')"
    and "set (escrowTokenIds s') = set (escrowTokenIds s) - {t}"
    by simp_all
next
  assume "onlyAdmin s sender \<and> validTokenId s t
      \<and> disputed (escrowTransactions s t) \<and> \<not> completed (escrowTransactions s t)
      \<and> e_price (escrowTransactions s t) \<le> balances s (this s)
      \<and> buyer (escrowTransactions s t) \<noteq> this s
      \<and> acceptsEther s (buyer (escrowTransactions s t))
      \<and> authorizedMarketplace (nft s) (this s) \<and> \<not> nft_paused (nft s)
      \<and> owners (nft s) t = buyer (escrowTransactions s t)
      \<and> buyer (escrowTransactions s t) \<noteq> 0 \<and> e_seller (escrowTransactions s t) \<noteq> 0
      \<and> isLocked (nft s) t"
  then show "\<exists>s2. resolveDispute s sender t False = Inr s2"
    by (simp add: resolveDispute_def refundBuyer_def transfer_ether_def marketplaceTransfer_def
        transfer_internal_def ownerOf_def unlockTicket_def exists_token_def Let_def)
qed

theorem resolveDispute_for_buyer_witness:
  "reachable in_dispute
   \<and> resolveDispute in_dispute 1 0 False = Inr refunded
   \<and> onlyAdmin in_dispute 1
   \<and> disputed (escrowTransactions in_dispute 0) \<and> \<not> completed (escrowTransactions in_dispute 0)
   \<and> buyer (escrowTransactions in_dispute 0) = 3 \<and> e_seller (escrowTransactions in_dispute 0) = 2
   \<and> e_price (escrowTransactions in_dispute 0) = 1000
   \<and> balances refunded 3 = balances in_dispute 3 + 1000
   \<and> balances refunded 100 + 1000 = balances in_dispute 100
   \<and> balances refunded 2 = balances in_dispute 2
   \<and> owners (nft in_dispute) 0 = 3 \<and> owners (nft refunded) 0 = 2
   \<and> \<not> isLocked (nft refunded) 0 \<and> status (ticketInfo (nft refunded) 0) = UNLOCKED
   \<and> completed (escrowTransactions refunded 0)
   \<and> 0 \<notin> set (escrowTokenIds refunded)"
proof -
  have r: "resolveDispute in_dispute 1 0 False = Inr refunded"
    using step_resolve_for_buyer by simp
  have vals: "buyer (escrowTransactions in_dispute 0) = 3"
    "e_seller (escrowTransactions in_dispute 0) = 2"
    "e_price (escrowTransactions in_dispute 0) = 1000" "this in_dispute = 100"
    by (simp_all add: in_dispute_def scene_def escrow0_def)
  from resolveDispute_for_buyer [OF reachable_in_dispute, of 1 0 refunded] r
  have eff: "onlyAdmin in_dispute 1
      \<and> disputed (escrowTransactions in_dispute 0) \<and> \<not> completed (escrowTransactions in_dispute 0)
      \<and> balances refunded (buyer (escrowTransactions in_dispute 0))
           = balances in_dispute (buyer (escrowTransactions in_dispute 0))
             + e_price (escrowTransactions in_dispute 0)
      \<and> balances refunded (this in_dispute) + e_price (escrowTransactions in_dispute 0)
           = balances in_dispute (this in_dispute)
      \<and> (\<forall>a. a \<noteq> buyer (escrowTransactions in_dispute 0) \<and> a \<noteq> this in_dispute
             \<longrightarrow> balances refunded a = balances in_dispute a)
      \<and> owners (nft in_dispute) 0 = buyer (escrowTransactions in_dispute 0)
      \<and> (\<exists>n1. marketplaceTransfer (nft in_dispute) (this in_dispute)
                  (buyer (escrowTransactions in_dispute 0))
                  (e_seller (escrowTransactions in_dispute 0)) 0 = Inr n1
              \<and> unlockTicket n1 (this in_dispute) 0 = Inr (nft refunded))
      \<and> owners (nft refunded) 0 = e_seller (escrowTransactions in_dispute 0)
      \<and> \<not> isLocked (nft refunded) 0 \<and> status (ticketInfo (nft refunded) 0) = UNLOCKED
      \<and> escrowTransactions refunded 0 = (escrowTransactions in_dispute 0)\<lparr> completed := True \<rparr>
      \<and> escrowTokenIds refunded = removeFrom_loop 0 0 (escrowTokenIds in_dispute)
      \<and> 0 \<notin> set (escrowTokenIds refunded)
      \<and> set (escrowTokenIds refunded) = set (escrowTokenIds in_dispute) - {0}"
    by blast
  from eff vals have bal: "balances refunded 3 = balances in_dispute 3 + 1000"
    "balances refunded 100 + 1000 = balances in_dispute 100"
    "balances refunded 2 = balances in_dispute 2"
    by simp_all
  from eff vals have own: "owners (nft in_dispute) 0 = 3" "owners (nft refunded) 0 = 2"
    by simp_all
  from eff have compl: "completed (escrowTransactions refunded 0)"
    by simp
  from eff have rest: "onlyAdmin in_dispute 1" "disputed (escrowTransactions in_dispute 0)"
    "\<not> completed (escrowTransactions in_dispute 0)" "\<not> isLocked (nft refunded) 0"
    "status (ticketInfo (nft refunded) 0) = UNLOCKED" "0 \<notin> set (escrowTokenIds refunded)"
    by blast+
  from reachable_in_dispute r vals(1-3) bal own compl rest show ?thesis
    by blast
qed

section \<open>Confirmation\<close>

text \<open>
  Claim C8, as amended. For an open escrow of a valid token and a caller who is its seller
  or buyer: if the escrow is disputed the call reverts ("Transaction is disputed");
  otherwise it reverts when that party has already confirmed ("Already confirmed by
  seller" or "Already confirmed by buyer"), and else it sets that party's flag. When the
  other flag is still false the call succeeds and changes nothing else; when the other
  flag is already true, so that both become true, the call is the settlement
  \<^verbatim>\<open>_completeEscrow\<close> run on the updated escrow in the same transaction. A successful
  call leaves the caller's flag set, and the escrow completed exactly when both flags
  are set.
\<close>

theorem confirm_sets_flag_then_settles:
  assumes "validTokenId s t" and "e_price (escrowTransactions s t) > 0"
    and "\<not> completed (escrowTransactions s t)"
    and "sender = buyer (escrowTransactions s t) \<or> sender = e_seller (escrowTransactions s t)"
  shows "(disputed (escrowTransactions s t)
            \<longrightarrow> confirmTransaction s sender t = Inl ''Transaction is disputed'')
       \<and> (\<not> disputed (escrowTransactions s t) \<and> sender = e_seller (escrowTransactions s t)
            \<and> sellerConfirmed (escrowTransactions s t)
            \<longrightarrow> confirmTransaction s sender t = Inl ''Already confirmed by seller'')
       \<and> (\<not> disputed (escrowTransactions s t) \<and> sender \<noteq> e_seller (escrowTransactions s t)
            \<and> buyerConfirmed (escrowTransactions s t)
            \<longrightarrow> confirmTransaction s sender t = Inl ''Already confirmed by buyer'')
       \<and> (\<not> disputed (escrowTransactions s t) \<and> sender = e_seller (escrowTransactions s t)
            \<and> \<not> sellerConfirmed (escrowTransactions s t)
            \<longrightarrow> confirmTransaction s sender t =
                  (if buyerConfirmed (escrowTransactions s t)
                   then completeEscrow
                          (set_escrow s t ((escrowTransactions s t)\<lparr> sellerConfirmed := True \<rparr>)) t
                   else Inr (set_escrow s t ((escrowTransactions s t)\<lparr> sellerConfirmed := True \<rparr>))))
       \<and> (\<not> disputed (escrowTransactions s t) \<and> sender \<noteq> e_seller (escrowTransactions s t)
            \<and> \<not> buyerConfirmed (escrowTransactions s t)
            \<longrightarrow> confirmTransaction s sender t =
                  (if sellerConfirmed (escrowTransactions s t)
                   then completeEscrow
                          (set_escrow s t ((escrowTransactions s t)\<lparr> buyerConfirmed := True \<rparr>)) t
                   else Inr (set_escrow s t ((escrowTransactions s t)\<lparr> buyerConfirmed := True \<rparr>))))
       \<and> (confirmTransaction s sender t = Inr s'
            \<longrightarrow> (if sender = e_seller (escrowTransactions s t)
                 then sellerConfirmed (escrowTransactions s' t)
                 else buyerConfirmed (escrowTransactions s' t))
                \<and> completed (escrowTransactions s' t)
                    = (sellerConfirmed (escrowTransactions s' t)
                         \<and> buyerConfirmed (escrowTransactions s' t)))"
proof -
  have settle: "completed (escrowTransactions s' t)
      \<and> sellerConfirmed (escrowTransactions s' t) = sellerConfirmed e
      \<and> buyerConfirmed (escrowTransactions s' t) = buyerConfirmed e"
    if "completeEscrow (set_escrow s t e) t = Inr s'" for e
    using completeEscrow_effect(1) [OF that] by (simp add: set_escrow_def)
  show ?thesis
    using assms settle
    by (auto simp: confirmTransaction_def Let_def set_escrow_def split: if_splits)
qed

theorem confirm_sets_flag_then_settles_witness:
  "validTokenId in_escrow 0 \<and> e_price (escrowTransactions in_escrow 0) > 0
   \<and> \<not> completed (escrowTransactions in_escrow 0) \<and> \<not> disputed (escrowTransactions in_escrow 0)
   \<and> 3 = buyer (escrowTransactions in_escrow 0) \<and> \<not> buyerConfirmed (escrowTransactions in_escrow 0)
   \<and> confirmTransaction in_escrow 3 0 = Inr buyer_confirmed
   \<and> buyerConfirmed (escrowTransactions buyer_confirmed 0)
   \<and> \<not> completed (escrowTransactions buyer_confirmed 0)
   \<and> confirmTransaction buyer_confirmed 3 0 = Inl ''Already confirmed by buyer''
   \<and> 2 = e_seller (escrowTransactions buyer_confirmed 0)
   \<and> confirmTransaction buyer_confirmed 2 0 = Inr settled
   \<and> sellerConfirmed (escrowTransactions settled 0) \<and> buyerConfirmed (escrowTransactions settled 0)
   \<and> completed (escrowTransactions settled 0)
   \<and> disputed (escrowTransactions in_dispute 0)
   \<and> confirmTransaction in_dispute 3 0 = Inl ''Transaction is disputed''"
proof -
  have p1: "validTokenId in_escrow 0" "e_price (escrowTransactions in_escrow 0) > 0"
    "\<not> completed (escrowTransactions in_escrow 0)"
    "3 = buyer (escrowTransactions in_escrow 0) \<or> 3 = e_seller (escrowTransactions in_escrow 0)"
    by (simp_all add: in_escrow_def scene_def escrow0_def validTokenId_def totalSupply_def)
  have p2: "validTokenId buyer_confirmed 0" "e_price (escrowTransactions buyer_confirmed 0) > 0"
    "\<not> completed (escrowTransactions buyer_confirmed 0)"
    "3 = buyer (escrowTransactions buyer_confirmed 0) \<or> 3 = e_seller (escrowTransactions buyer_confirmed 0)"
    "2 = buyer (escrowTransactions buyer_confirmed 0) \<or> 2 = e_seller (escrowTransactions buyer_confirmed 0)"
    by (simp_all add: buyer_confirmed_def scene_def escrow0_def validTokenId_def totalSupply_def)
  have p3: "validTokenId in_dispute 0" "e_price (escrowTransactions in_dispute 0) > 0"
    "\<not> completed (escrowTransactions in_dispute 0)"
    "3 = buyer (escrowTransactions in_dispute 0) \<or> 3 = e_seller (escrowTransactions in_dispute 0)"
    by (simp_all add: in_dispute_def scene_def escrow0_def validTokenId_def totalSupply_def)
  have flags: "\<not> disputed (escrowTransactions in_escrow 0)"
    "3 = buyer (escrowTransactions in_escrow 0)" "\<not> buyerConfirmed (escrowTransactions in_escrow 0)"
    "3 \<noteq> e_seller (escrowTransactions in_escrow 0)"
    "\<not> disputed (escrowTransactions buyer_confirmed 0)"
    "buyerConfirmed (escrowTransactions buyer_confirmed 0)"
    "\<not> sellerConfirmed (escrowTransactions buyer_confirmed 0)"
    "3 \<noteq> e_seller (escrowTransactions buyer_confirmed 0)"
    "2 = e_seller (escrowTransactions buyer_confirmed 0)"
    "disputed (escrowTransactions in_dispute 0)"
    by (simp_all add: in_escrow_def buyer_confirmed_def in_dispute_def scene_def escrow0_def)
  have s1: "confirmTransaction in_escrow 3 0 = Inr buyer_confirmed"
    using step_confirm_buyer by (simp add: buyer_confirmed_def)
  have s2: "confirmTransaction buyer_confirmed 2 0 = Inr settled"
    using step_confirm_seller by (simp add: buyer_confirmed_def settled_def)
  have r2: "confirmTransaction buyer_confirmed 3 0 = Inl ''Already confirmed by buyer''"
    using confirm_sets_flag_then_settles [OF p2(1-3) p2(4), of settled] flags by blast
  have r3: "sellerConfirmed (escrowTransactions settled 0)
      \<and> completed (escrowTransactions settled 0) = (sellerConfirmed (escrowTransactions settled 0)
           \<and> buyerConfirmed (escrowTransactions settled 0))"
    using confirm_sets_flag_then_settles [OF p2(1-3) p2(5), of settled] flags s2 by simp
  have r4: "confirmTransaction in_dispute 3 0 = Inl ''Transaction is disputed''"
    using confirm_sets_flag_then_settles [OF p3(1-3) p3(4), of settled] flags by blast
  have b: "buyerConfirmed (escrowTransactions settled 0)"
    by (simp add: settled_def scene_def escrow0_def)
  from p1 p2 flags s1 s2 r2 r3 r4 b show ?thesis by simp
qed

text \<open>
  The claim as stated lets every party that has not yet confirmed set its flag on any open
  escrow. On an open escrow under dispute the buyer, who has not confirmed, is rejected.
\<close>

theorem confirm_on_disputed_escrow_counterexample:
  "reachable in_dispute
   \<and> validTokenId in_dispute 0 \<and> e_price (escrowTransactions in_dispute 0) > 0
   \<and> \<not> completed (escrowTransactions in_dispute 0)
   \<and> buyer (escrowTransactions in_dispute 0) = 3
   \<and> \<not> buyerConfirmed (escrowTransactions in_dispute 0)
   \<and> confirmTransaction in_dispute 3 0 = Inl ''Transaction is disputed''"
  using reachable_in_dispute
  by (simp add: in_dispute_def scene_def escrow0_def validTokenId_def totalSupply_def
      confirmTransaction_def Let_def)

section \<open>Auto-release\<close>

text \<open>
  Claim C9, as amended. On an open, non-disputed escrow of a valid token,
  \<^verbatim>\<open>autoReleaseEscrow\<close> reverts whenever \<open>now < startTime + CONFIRMATION_PERIOD\<close>. From
  the deadline on it is the settlement itself: it succeeds exactly when the settlement
  can be carried out (\<open>can_settle\<close>: the fee computation stays in range, the marketplace
  holds at least \<open>price - fee\<close>, the seller takes the payment, and the token contract lets
  the marketplace unlock the still locked ticket). When it succeeds the deadline has
  passed, the escrow is completed, and every later call on it reverts with
  "Transaction already completed": at most one success per escrow.
\<close>

theorem autoRelease_after_deadline_once:
  assumes "validTokenId s t" and "e_price (escrowTransactions s t) > 0"
    and "\<not> completed (escrowTransactions s t)" and "\<not> disputed (escrowTransactions s t)"
  shows "(now < startTime (escrowTransactions s t) + CONFIRMATION_PERIOD
            \<longrightarrow> (\<exists>msg. autoReleaseEscrow s now t = Inl msg))
       \<and> (startTime (escrowTransactions s t) + CONFIRMATION_PERIOD \<le> now \<and> now \<le> MAX_UINT256
            \<longrightarrow> autoReleaseEscrow s now t = completeEscrow s t
                \<and> ((\<exists>s'. autoReleaseEscrow s now t = Inr s') = can_settle s t))
       \<and> (autoReleaseEscrow s now t = Inr s'
            \<longrightarrow> startTime (escrowTransactions s t) + CONFIRMATION_PERIOD \<le> now
                \<and> completed (escrowTransactions s' t)
                \<and> autoReleaseEscrow s' now' t = Inl ''Transaction already completed'')"
proof (intro conjI impI)
  assume "now < startTime (escrowTransactions s t) + CONFIRMATION_PERIOD"
  with assms show "\<exists>msg. autoReleaseEscrow s now t = Inl msg"
    by (simp add: autoReleaseEscrow_def Let_def)
next
  assume a: "startTime (escrowTransactions s t) + CONFIRMATION_PERIOD \<le> now \<and> now \<le> MAX_UINT256"
  with assms show eq: "autoReleaseEscrow s now t = completeEscrow s t"
    by (simp add: autoReleaseEscrow_def Let_def)
  then show "(\<exists>s'. autoReleaseEscrow s now t = Inr s') = can_settle s t"
    by (simp add: completeEscrow_succeeds_iff)
next
  assume r: "autoReleaseEscrow s now t = Inr s'"
  with assms show "startTime (escrowTransactions s t) + CONFIRMATION_PERIOD \<le> now"
    by (simp add: autoReleaseEscrow_def Let_def split: if_splits)
  from r assms have "completeEscrow s t = Inr s'"
    by (simp add: autoReleaseEscrow_def Let_def split: if_splits)
  from completeEscrow_completed [OF this] assms
  show "completed (escrowTransactions s' t)"
    and "autoReleaseEscrow s' now' t = Inl ''Transaction already completed''"
    by (simp_all add: autoReleaseEscrow_def Let_def)
qed

theorem autoRelease_after_deadline_once_witness:
  "validTokenId in_escrow 0 \<and> e_price (escrowTransactions in_escrow 0) > 0
   \<and> \<not> completed (escrowTransactions in_escrow 0) \<and> \<not> disputed (escrowTransactions in_escrow 0)
   \<and> startTime (escrowTransactions in_escrow 0) + CONFIRMATION_PERIOD = 604814
   \<and> (\<exists>msg. autoReleaseEscrow in_escrow 604813 0 = Inl msg)
   \<and> can_settle in_escrow 0
   \<and> autoReleaseEscrow in_escrow 604814 0 = Inr auto_released
   \<and> completed (escrowTransactions auto_released 0)
   \<and> autoReleaseEscrow auto_released 604815 0 = Inl ''Transaction already completed''"
proof -
  have pre: "validTokenId in_escrow 0" "e_price (escrowTransactions in_escrow 0) > 0"
    "\<not> completed (escrowTransactions in_escrow 0)" "\<not> disputed (escrowTransactions in_escrow 0)"
    by (simp_all add: in_escrow_def scene_def escrow0_def validTokenId_def totalSupply_def)
  have deadline: "startTime (escrowTransactions in_escrow 0) + CONFIRMATION_PERIOD = 604814"
    by (simp add: in_escrow_def scene_def escrow0_def CONFIRMATION_PERIOD_def)
  have max: "(604814::nat) \<le> MAX_UINT256"
    by (simp add: MAX_UINT256_def)
  from autoRelease_after_deadline_once [OF pre, of 604813 auto_released 604815]
    autoRelease_after_deadline_once [OF pre, of 604814 auto_released 604815]
    pre deadline max step_autoRelease
  show ?thesis by auto
qed

text \<open>
  The claim as stated promises success from the deadline on. A seller that does not take
  the payment makes the settlement's \<^verbatim>\<open>transfer\<close> revert, and the auto-release with it.
\<close>

theorem autoRelease_after_deadline_counterexample:
  "reachable seller_refuses
   \<and> validTokenId seller_refuses 0 \<and> e_price (escrowTransactions seller_refuses 0) > 0
   \<and> \<not> completed (escrowTransactions seller_refuses 0)
   \<and> \<not> disputed (escrowTransactions seller_refuses 0)
   \<and> startTime (escrowTransactions seller_refuses 0) + CONFIRMATION_PERIOD \<le> 604814
   \<and> autoReleaseEscrow seller_refuses 604814 0 = Inl ''transfer: recipient reverted''"
  using reachable_seller_refuses
  by (simp add: seller_refuses_def in_escrow_def nft_defs mkt_defs scene_defs MAX_UINT256_def
      CONFIRMATION_PERIOD_def Let_def)

section \<open>Ownership of a locked ticket\<close>

text \<open>
  Claim C10. The contract guards \<^verbatim>\<open>transferFrom\<close> and both \<^verbatim>\<open>safeTransferFrom\<close> with
  \<^verbatim>\<open>notLocked\<close>, so that the owner of a locked ticket changes only through the
  marketplace-only \<^verbatim>\<open>marketplaceTransfer\<close>. The inherited \<^verbatim>\<open>burn\<close> is left without the
  guard. In the reachable state where ticket 0 is locked in escrow and held by the buyer,
  account 3, who is not an authorized marketplace, the buyer's ordinary transfers revert
  with "Token is locked", and the buyer's \<^verbatim>\<open>burn\<close> succeeds: the owner entry of the
  locked ticket goes from account 3 to the zero address. The ticket stays locked and the
  escrow open, and the escrow's release reverts from then on.
\<close>

theorem burn_changes_owner_of_locked_ticket:
  "reachable in_escrow
   \<and> isLocked (nft in_escrow) 0 \<and> owners (nft in_escrow) 0 = 3
   \<and> \<not> authorizedMarketplace (nft in_escrow) 3
   \<and> transferFrom (nft in_escrow) 3 3 2 0 = Inl ''Token is locked''
   \<and> safeTransferFrom (nft in_escrow) (acceptsERC721 in_escrow) 3 3 2 0 = Inl ''Token is locked''
   \<and> burn (nft in_escrow) 3 0 = Inr (nft burnt)
   \<and> exec in_escrow 15 (Burn 3 0) = Inr burnt
   \<and> isLocked (nft burnt) 0 \<and> owners (nft burnt) 0 = 0
   \<and> isInEscrow burnt 0
   \<and> autoReleaseEscrow burnt 604814 0 = Inl ''Token does not exist''"
proof -
  have "burn (nft in_escrow) 3 0 = Inr (nft burnt)"
    by (simp add: burnt_def in_escrow_def nft_defs scene_defs fun_eq_iff)
  moreover have "autoReleaseEscrow burnt 604814 0 = Inl ''Token does not exist''"
    by (simp add: burnt_def in_escrow_def nft_defs mkt_defs scene_defs MAX_UINT256_def
        CONFIRMATION_PERIOD_def Let_def)
  moreover have "isLocked (nft in_escrow) 0 \<and> owners (nft in_escrow) 0 = 3
      \<and> \<not> authorizedMarketplace (nft in_escrow) 3
      \<and> transferFrom (nft in_escrow) 3 3 2 0 = Inl ''Token is locked''
      \<and> safeTransferFrom (nft in_escrow) (acceptsERC721 in_escrow) 3 3 2 0 = Inl ''Token is locked''
      \<and> isLocked (nft burnt) 0 \<and> owners (nft burnt) 0 = 0 \<and> isInEscrow burnt 0"
    by (simp add: burnt_def in_escrow_def transferFrom_def safeTransferFrom_def isInEscrow_def
        scene_defs)
  ultimately show ?thesis using reachable_in_escrow step_burn by simp
qed

end
